theory Spec2Isabelle
  imports Complex_Main
begin

section \<open>Vectors and landmarks\<close>

text \<open>
  A JavaScript \<open>number\<close> is modelled as a real: the development is about the exact
  arithmetic of \<open>src/worker/pose-processing.ts\<close>, so rounding, NaN and the infinities
  are outside the model. An optional number (\<open>visibility?: number\<close>) is a
  \<open>real option\<close>, with \<open>None\<close> for \<open>undefined\<close>.
\<close>

datatype Vector3 = Vector3 (vx: real) (vy: real) (vz: real)

definition Vector3_Zero :: Vector3 where
  "Vector3_Zero = Vector3 0 0 0"

definition Vector3_One :: Vector3 where
  "Vector3_One = Vector3 1 1 1"

text \<open>
  The operations of the Babylon.js class \<open>Vector3\<close> that the worker calls.
  \<open>normalize\<close> goes through \<open>normalizeFromLength\<close>, which returns the vector as it
  is when its length is 0 or 1 and scales it by the inverse of its length otherwise.
\<close>

definition Vector3_add :: "Vector3 \<Rightarrow> Vector3 \<Rightarrow> Vector3" where
  "Vector3_add a b = Vector3 (vx a + vx b) (vy a + vy b) (vz a + vz b)"

definition Vector3_subtract :: "Vector3 \<Rightarrow> Vector3 \<Rightarrow> Vector3" where
  "Vector3_subtract a b = Vector3 (vx a - vx b) (vy a - vy b) (vz a - vz b)"

definition Vector3_scale :: "Vector3 \<Rightarrow> real \<Rightarrow> Vector3" where
  "Vector3_scale a k = Vector3 (vx a * k) (vy a * k) (vz a * k)"

definition Vector3_cross :: "Vector3 \<Rightarrow> Vector3 \<Rightarrow> Vector3" where
  "Vector3_cross a b =
     Vector3 (vy a * vz b - vz a * vy b)
             (vz a * vx b - vx a * vz b)
             (vx a * vy b - vy a * vx b)"

definition Vector3_length :: "Vector3 \<Rightarrow> real" where
  "Vector3_length a = sqrt (vx a * vx a + vy a * vy a + vz a * vz a)"

definition Vector3_normalize :: "Vector3 \<Rightarrow> Vector3" where
  "Vector3_normalize a =
     (let len = Vector3_length a
      in if len = 0 then a else if len = 1 then a else Vector3_scale a (1 / len))"

datatype NormalizedLandmark =
  NormalizedLandmark (lm_x: real) (lm_y: real) (lm_z: real) (lm_visibility: "real option")

text \<open>
  Modelled from the spec: \<open>normalizedLandmarkToVector\<close> and
  \<open>vectorToNormalizedLandmark\<close> are helpers of \<open>src/helper/utils\<close>, which is not
  among the sources. A landmark is a Vector3 plus an optional confidence, so the
  conversions copy the three coordinates; the landmark built from a vector has no
  confidence.
\<close>

definition normalizedLandmarkToVector :: "NormalizedLandmark \<Rightarrow> Vector3" where
  "normalizedLandmarkToVector l = Vector3 (lm_x l) (lm_y l) (lm_z l)"

definition vectorToNormalizedLandmark :: "Vector3 \<Rightarrow> NormalizedLandmark" where
  "vectorToNormalizedLandmark v = NormalizedLandmark (vx v) (vy v) (vz v) None"

text \<open>Euclidean magnitude of an exported landmark.\<close>

definition landmark_magnitude :: "NormalizedLandmark \<Rightarrow> real" where
  "landmark_magnitude l = sqrt (lm_x l * lm_x l + lm_y l * lm_y l + lm_z l * lm_z l)"

text \<open>Reading a JavaScript array: an index past the end gives \<open>undefined\<close>.\<close>

fun lookup :: "'a list \<Rightarrow> nat \<Rightarrow> 'a option" where
  "lookup [] i = None"
| "lookup (x # xs) 0 = Some x"
| "lookup (x # xs) (Suc i) = lookup xs i"


section \<open>What the worker imports\<close>

text \<open>
  Modelled from the spec: the classes \<open>OneEuroVectorFilter\<close> and
  \<open>EuclideanHighPassFilter\<close> live in \<open>src/helper/utils\<close>, which is not among the
  sources. Their fields are the ones the worker passes to the constructors and reads
  back (previous timestamp, previous value and previous smoothed derivative, the
  parameters \<open>min_cutoff\<close> and \<open>beta\<close>; the dead-zone threshold and the held
  reference \<open>value\<close>). What \<open>next\<close> and \<open>update\<close> compute is a parameter of the
  model (\<open>oe_next\<close>, \<open>hp_update\<close> below), so every theorem holds for any filter.
  The low-pass filter's constructor stores its five arguments.
\<close>

record OneEuroVectorFilter =
  t_prev :: real
  x_prev :: Vector3
  dx_prev :: Vector3
  min_cutoff :: real
  beta :: real

record EuclideanHighPassFilter =
  threshold :: real
  hp_value :: Vector3

text \<open>
  The names the worker imports and whose definitions are not among the sources: the
  method \<open>next\<close> of the low-pass filter, the constructor and the method \<open>update\<close>
  of the dead-zone filter, the two list lengths of \<open>src/helper/utils\<close>, and the
  connection tables of the face mesh (lists of index pairs) of the MediaPipe package.
\<close>

record deps =
  oe_next :: "OneEuroVectorFilter \<Rightarrow> real \<Rightarrow> Vector3 \<Rightarrow> Vector3 \<times> OneEuroVectorFilter"
  hp_new :: "real \<Rightarrow> EuclideanHighPassFilter"
  hp_update :: "EuclideanHighPassFilter \<Rightarrow> Vector3 \<Rightarrow> EuclideanHighPassFilter"
  POSE_LANDMARK_LENGTH :: nat
  FACE_LANDMARK_LENGTH :: nat
  FACEMESH_LEFT_EYEBROW :: "(nat \<times> nat) list"
  FACEMESH_RIGHT_EYEBROW :: "(nat \<times> nat) list"
  FACEMESH_LEFT_EYE :: "(nat \<times> nat) list"
  FACEMESH_RIGHT_EYE :: "(nat \<times> nat) list"
  FACEMESH_LEFT_IRIS :: "(nat \<times> nat) list"
  FACEMESH_RIGHT_IRIS :: "(nat \<times> nat) list"
  FACEMESH_LIPS :: "(nat \<times> nat) list"

text \<open>
  The entries of MediaPipe's \<open>POSE_LANDMARKS\<close> table that the worker reads
  (\<open>LEFT_RIGHT\<close> and \<open>RIGHT_LEFT\<close> are the mouth corners, mis-named in the package).
\<close>

definition NOSE :: nat where "NOSE = 0"
definition LEFT_EYE_INNER :: nat where "LEFT_EYE_INNER = 1"
definition LEFT_EYE_OUTER :: nat where "LEFT_EYE_OUTER = 3"
definition RIGHT_EYE_INNER :: nat where "RIGHT_EYE_INNER = 4"
definition RIGHT_EYE_OUTER :: nat where "RIGHT_EYE_OUTER = 6"
definition LEFT_RIGHT :: nat where "LEFT_RIGHT = 9"
definition RIGHT_LEFT :: nat where "RIGHT_LEFT = 10"
definition LEFT_HIP :: nat where "LEFT_HIP = 23"
definition RIGHT_HIP :: nat where "RIGHT_HIP = 24"


section \<open>FilteredVectorLandmark\<close>

datatype LandmarkTimeIncrementMode = Universal | RealTime

record FilteredVectorLandmark =
  oneEuroVectorFilter :: OneEuroVectorFilter
  highPassFilter :: EuclideanHighPassFilter
  tIncrementMode :: LandmarkTimeIncrementMode
  fvl_t :: real
  fvl_pos :: Vector3
  fvl_visibility :: "real option"

definition VISIBILITY_THRESHOLD :: real where
  "VISIBILITY_THRESHOLD = 6 / 10"

text \<open>
  The constructor. The defaults of its parameters (0.01, 0, 0.003) are written out at
  the call sites below.
\<close>

definition new_FilteredVectorLandmark ::
  "deps \<Rightarrow> real \<Rightarrow> real \<Rightarrow> real \<Rightarrow> FilteredVectorLandmark" where
  "new_FilteredVectorLandmark E oneEuroCutoff oneEuroBeta highPassThreshold =
     \<lparr> oneEuroVectorFilter =
         \<lparr> t_prev = 0, x_prev = Vector3_Zero, dx_prev = Vector3_Zero,
           min_cutoff = oneEuroCutoff, beta = oneEuroBeta \<rparr>,
       highPassFilter = hp_new E highPassThreshold,
       tIncrementMode = Universal,
       fvl_t = 0,
       fvl_pos = Vector3_Zero,
       fvl_visibility = Some 0 \<rparr>"

text \<open>
  The test \<open>!visibility || visibility > Poses.VISIBILITY_THRESHOLD\<close>: \<open>!visibility\<close>
  holds for \<open>undefined\<close> and for the number 0.
\<close>

definition accepted :: "real option \<Rightarrow> bool" where
  "accepted visibility =
     (case visibility of
        None \<Rightarrow> True
      | Some v \<Rightarrow> if v = 0 then True else v > VISIBILITY_THRESHOLD)"

definition advance_t :: "real \<Rightarrow> FilteredVectorLandmark \<Rightarrow> FilteredVectorLandmark" where
  "advance_t dt l =
     (case tIncrementMode l of
        Universal \<Rightarrow> l\<lparr>fvl_t := fvl_t l + 1\<rparr>
      | RealTime \<Rightarrow> l\<lparr>fvl_t := fvl_t l + dt\<rparr>)"

definition updatePosition ::
  "deps \<Rightarrow> real \<Rightarrow> Vector3 \<Rightarrow> real option \<Rightarrow> FilteredVectorLandmark \<Rightarrow> FilteredVectorLandmark" where
  "updatePosition E dt p visibility l =
     (let l1 = advance_t dt l
      in if accepted visibility
         then (case oe_next E (oneEuroVectorFilter l1) (fvl_t l1) p of
                 (x_hat, oe) \<Rightarrow>
                   let hp = hp_update E (highPassFilter l1) x_hat
                   in l1\<lparr>oneEuroVectorFilter := oe, highPassFilter := hp,
                         fvl_pos := hp_value hp, fvl_visibility := visibility\<rparr>)
         else l1)"

text \<open>
  \<open>if (min_cutoff) ...\<close> and \<open>if (beta) ...\<close>: the assignment runs when the argument
  is given and is not 0. The third parameter \<open>d_cutoff\<close> is not used by the body.
\<close>

definition truthy :: "real option \<Rightarrow> bool" where
  "truthy a = (case a of None \<Rightarrow> False | Some v \<Rightarrow> v \<noteq> 0)"

definition updateFilterParameters ::
  "real option \<Rightarrow> real option \<Rightarrow> real option \<Rightarrow> FilteredVectorLandmark \<Rightarrow> FilteredVectorLandmark" where
  "updateFilterParameters min_cutoff_arg beta_arg d_cutoff_arg l =
     (let f1 = (if truthy min_cutoff_arg
                then (oneEuroVectorFilter l)\<lparr>min_cutoff := the min_cutoff_arg\<rparr>
                else oneEuroVectorFilter l);
          f2 = (if truthy beta_arg then f1\<lparr>beta := the beta_arg\<rparr> else f1)
      in l\<lparr>oneEuroVectorFilter := f2\<rparr>)"


section \<open>Poses\<close>

text \<open>
  The fields of the detector's result that the worker reads: \<open>ea\<close> (the list that is
  filtered as the body pose), \<open>poseLandmarks\<close> and \<open>faceLandmarks\<close>. Each is a list
  or is absent.
\<close>

record CloneableResults =
  res_ea :: "NormalizedLandmark list option"
  res_poseLandmarks :: "NormalizedLandmark list option"
  res_faceLandmarks :: "NormalizedLandmark list option"

text \<open>What \<open>console.warn\<close> has printed: the number interpolated into the message.\<close>

datatype console_message = PoseLengthWarning nat

record Poses =
  cloneableInputResults :: "CloneableResults option"
  inputPoseLandmarks :: "NormalizedLandmark list"
  poseLandmarks :: "FilteredVectorLandmark list"
  inputFaceLandmarks :: "NormalizedLandmark list"
  faceLandmarks :: "FilteredVectorLandmark list"
  cloneablePoseLandmarks :: "NormalizedLandmark list"
  faceNormals :: "NormalizedLandmark list"
  faceMeshLandmarkIndexList :: "nat list list"
  faceMeshLandmarkList :: "NormalizedLandmark list list"
  midHipBase :: Vector3
  firstResult :: bool
  console :: "console_message list"

text \<open>
  The field initialisers of the class. \<open>initArray(n, f)\<close> is a helper of
  \<open>src/helper/utils\<close>; it is taken to build the list of \<open>n\<close> values of \<open>f\<close>.
\<close>

definition new_Poses :: "deps \<Rightarrow> Poses" where
  "new_Poses E =
     \<lparr> cloneableInputResults = None,
       inputPoseLandmarks = replicate (POSE_LANDMARK_LENGTH E) (NormalizedLandmark 0 0 0 None),
       poseLandmarks =
         replicate (POSE_LANDMARK_LENGTH E) (new_FilteredVectorLandmark E (1 / 100) 2 (7 / 1000)),
       inputFaceLandmarks = replicate (FACE_LANDMARK_LENGTH E) (NormalizedLandmark 0 0 0 None),
       faceLandmarks =
         replicate (FACE_LANDMARK_LENGTH E) (new_FilteredVectorLandmark E (2 / 100) 10 (3 / 1000)),
       cloneablePoseLandmarks =
         replicate (POSE_LANDMARK_LENGTH E) (NormalizedLandmark 0 0 0 None),
       faceNormals = [],
       faceMeshLandmarkIndexList = [],
       faceMeshLandmarkList = [],
       midHipBase = Vector3_Zero,
       firstResult = True,
       console = [] \<rparr>"

text \<open>
  A call either returns or throws; in both cases the object keeps the assignments made
  so far, so both outcomes carry the state.
\<close>

datatype error = TypeError

datatype 's outcome = Normal 's | Thrown error 's

fun state_of :: "'s outcome \<Rightarrow> 's" where
  "state_of (Normal s) = s"
| "state_of (Thrown e s) = s"

fun and_then :: "'s outcome \<Rightarrow> ('s \<Rightarrow> 's outcome) \<Rightarrow> 's outcome" where
  "and_then (Normal s) f = f s"
| "and_then (Thrown e s) f = Thrown e s"

subsection \<open>preProcessLandmarks\<close>

text \<open>The body of the \<open>map\<close> callback: the vertical axis is reversed, the offset added.\<close>

definition transformLandmark :: "Vector3 \<Rightarrow> NormalizedLandmark \<Rightarrow> NormalizedLandmark" where
  "transformLandmark offset v =
     NormalizedLandmark (lm_x v + vx offset) (- lm_y v + vy offset) (lm_z v + vz offset)
       (lm_visibility v)"

text \<open>
  The noise-filtering loop over \<open>i < resultsLandmarks.length\<close>. When the input is
  longer than the filtered list, \<open>filteredLandmarks[i]\<close> is \<open>undefined\<close> at the first
  index past its end and the call of \<open>updatePosition\<close> on it throws, after every
  filtered landmark has been updated. The flag says whether it threw.
\<close>

fun filterLandmarks ::
  "deps \<Rightarrow> real \<Rightarrow> NormalizedLandmark list \<Rightarrow> FilteredVectorLandmark list
     \<Rightarrow> FilteredVectorLandmark list \<times> bool" where
  "filterLandmarks E dt [] fs = (fs, False)"
| "filterLandmarks E dt (r # rs) [] = ([], True)"
| "filterLandmarks E dt (r # rs) (f # fs) =
     (case filterLandmarks E dt rs fs of
        (fs', thrown) \<Rightarrow>
          (updatePosition E dt (normalizedLandmarkToVector r) (lm_visibility r) f # fs', thrown))"

text \<open>
  The result is the input list as mutated in place (also the value returned), the
  filtered list after the loop, and whether the loop threw.
\<close>

definition preProcessLandmarks ::
  "deps \<Rightarrow> NormalizedLandmark list \<Rightarrow> FilteredVectorLandmark list \<Rightarrow> real \<Rightarrow> Vector3
     \<Rightarrow> NormalizedLandmark list \<times> FilteredVectorLandmark list \<times> bool" where
  "preProcessLandmarks E resultsLandmarks filteredLandmarks dt offset =
     (let rs = map (transformLandmark offset) resultsLandmarks
      in case filterLandmarks E dt rs filteredLandmarks of
           (fs, thrown) \<Rightarrow> (rs, fs, thrown))"

subsection \<open>preProcessResults\<close>

text \<open>\<open>(l.visibility || 0)\<close>\<close>

definition visibility_or_0 :: "NormalizedLandmark \<Rightarrow> real" where
  "visibility_or_0 l = (case lm_visibility l of None \<Rightarrow> 0 | Some v \<Rightarrow> v)"

text \<open>
  The block under the comment ``Remember initial offset''. The conjunction is
  evaluated left to right and stops at the first false conjunct; reading
  \<open>.visibility\<close> of an index past the end of the list throws.
\<close>

definition rememberOffset :: "NormalizedLandmark list \<Rightarrow> Poses \<Rightarrow> Poses outcome" where
  "rememberOffset ps s =
     (if firstResult s
      then (case lookup ps LEFT_HIP of
              None \<Rightarrow> Thrown TypeError s
            | Some l \<Rightarrow>
                if visibility_or_0 l > VISIBILITY_THRESHOLD
                then (case lookup ps RIGHT_HIP of
                        None \<Rightarrow> Thrown TypeError s
                      | Some r \<Rightarrow>
                          if visibility_or_0 r > VISIBILITY_THRESHOLD
                          then Normal (s\<lparr>midHipBase :=
                                   Vector3_scale
                                     (Vector3_add (normalizedLandmarkToVector l)
                                        (normalizedLandmarkToVector r)) (1 / 2),
                                 firstResult := False\<rparr>)
                          else Normal s)
                else Normal s)
      else Normal s)"

text \<open>
  The lists of the input are mutated in place by \<open>preProcessLandmarks\<close>, and
  \<open>cloneableInputResults\<close> refers to the same object: these two functions record the
  mutation there.
\<close>

definition mutate_ea :: "NormalizedLandmark list \<Rightarrow> Poses \<Rightarrow> Poses" where
  "mutate_ea rs s =
     s\<lparr>cloneableInputResults :=
         map_option (\<lambda>res. res\<lparr>res_ea := Some rs\<rparr>) (cloneableInputResults s)\<rparr>"

definition mutate_face :: "NormalizedLandmark list \<Rightarrow> Poses \<Rightarrow> Poses" where
  "mutate_face rs s =
     s\<lparr>cloneableInputResults :=
         map_option (\<lambda>res. res\<lparr>res_faceLandmarks := Some rs\<rparr>) (cloneableInputResults s)\<rparr>"

definition preProcessPose :: "deps \<Rightarrow> real \<Rightarrow> NormalizedLandmark list \<Rightarrow> Poses \<Rightarrow> Poses outcome" where
  "preProcessPose E dt ps s =
     (let s1 = (if length ps \<noteq> POSE_LANDMARK_LENGTH E
                then s\<lparr>console := console s @ [PoseLengthWarning (POSE_LANDMARK_LENGTH E)]\<rparr>
                else s)
      in and_then (rememberOffset ps s1) (\<lambda>s2.
           case preProcessLandmarks E ps (poseLandmarks s2) dt
                  (Vector3 0 (vy (midHipBase s2)) 0) of
             (rs, fs, thrown) \<Rightarrow>
               if thrown
               then Thrown TypeError (mutate_ea rs (s2\<lparr>poseLandmarks := fs\<rparr>))
               else Normal (mutate_ea rs (s2\<lparr>poseLandmarks := fs, inputPoseLandmarks := rs\<rparr>))))"

definition preProcessFace :: "deps \<Rightarrow> real \<Rightarrow> NormalizedLandmark list \<Rightarrow> Poses \<Rightarrow> Poses outcome" where
  "preProcessFace E dt fl s =
     (case preProcessLandmarks E fl (faceLandmarks s) dt Vector3_Zero of
        (rs, fs, thrown) \<Rightarrow>
          if thrown
          then Thrown TypeError (mutate_face rs (s\<lparr>faceLandmarks := fs\<rparr>))
          else Normal (mutate_face rs (s\<lparr>faceLandmarks := fs, inputFaceLandmarks := rs\<rparr>)))"

definition preProcessResults :: "deps \<Rightarrow> real \<Rightarrow> Poses \<Rightarrow> Poses outcome" where
  "preProcessResults E dt s =
     (case cloneableInputResults s of
        None \<Rightarrow> Thrown TypeError s
      | Some res \<Rightarrow>
          and_then
            (case res_ea res of
               None \<Rightarrow> Normal s
             | Some ps \<Rightarrow> preProcessPose E dt ps s)
            (\<lambda>s1. case res_faceLandmarks res of
                     None \<Rightarrow> Normal s1
                   | Some fl \<Rightarrow> preProcessFace E dt fl s1))"

subsection \<open>calcFaceNormal\<close>

text \<open>
  \<open>idx.add(v)\<close> on a JavaScript \<open>Set\<close>, which keeps its elements in the order of
  their first insertion, and \<open>Array.from(idx)\<close> after both ends of every connection
  have been added.
\<close>

definition setAdd :: "nat list \<Rightarrow> nat \<Rightarrow> nat list" where
  "setAdd idx v = (if v \<in> set idx then idx else idx @ [v])"

definition indexArray :: "(nat \<times> nat) list \<Rightarrow> nat list" where
  "indexArray conn = foldl (\<lambda>idx v. setAdd (setAdd idx (fst v)) (snd v)) [] conn"

text \<open>
  The inner loop over \<open>j < idxArr.length\<close>, which builds \<open>arr\<close>: one exported point
  for each index. \<open>None\<close> when an index is past the end of the face landmarks
  (reading \<open>.pos\<close> of \<open>undefined\<close> throws).
\<close>

definition exportPoint :: "FilteredVectorLandmark \<Rightarrow> NormalizedLandmark" where
  "exportPoint l =
     NormalizedLandmark (vx (fvl_pos l)) (vy (fvl_pos l)) (vx (fvl_pos l)) (fvl_visibility l)"

fun regionPoints :: "FilteredVectorLandmark list \<Rightarrow> nat list \<Rightarrow> NormalizedLandmark list option" where
  "regionPoints fls [] = Some []"
| "regionPoints fls (k # ks) =
     (case lookup fls k of
        None \<Rightarrow> None
      | Some l \<Rightarrow>
          (case regionPoints fls ks of
             None \<Rightarrow> None
           | Some arr \<Rightarrow> Some (exportPoint l # arr)))"

text \<open>
  The outer loop over the connection tables, with the two exported lists as
  accumulators. When the inner loop throws, the index list of the table has been
  pushed already and its point list has not.
\<close>

fun exportFaceMesh ::
  "FilteredVectorLandmark list \<Rightarrow> (nat \<times> nat) list list \<Rightarrow> nat list list
     \<Rightarrow> NormalizedLandmark list list
     \<Rightarrow> nat list list \<times> NormalizedLandmark list list \<times> bool" where
  "exportFaceMesh fls [] il pl = (il, pl, False)"
| "exportFaceMesh fls (c # cs) il pl =
     (let idxArr = indexArray c
      in case regionPoints fls idxArr of
           None \<Rightarrow> (il @ [idxArr], pl, True)
         | Some arr \<Rightarrow> exportFaceMesh fls cs (il @ [idxArr]) (pl @ [arr]))"

definition faceMeshConnections :: "deps \<Rightarrow> (nat \<times> nat) list list" where
  "faceMeshConnections E =
     [FACEMESH_LEFT_EYEBROW E, FACEMESH_RIGHT_EYEBROW E,
      FACEMESH_LEFT_EYE E, FACEMESH_RIGHT_EYE E,
      FACEMESH_LEFT_IRIS E, FACEMESH_RIGHT_IRIS E,
      FACEMESH_LIPS E]"

text \<open>
  A triangle of the orientation estimate. An entry is \<open>None\<close> when the array read that
  produced it was out of range; \<open>normalFromVertices\<close> then throws on \<open>.pos\<close>.
\<close>

type_synonym FilteredVectorLandmark3 =
  "FilteredVectorLandmark option \<times> FilteredVectorLandmark option \<times> FilteredVectorLandmark option"

definition normalFromVertices :: "FilteredVectorLandmark3 \<Rightarrow> bool \<Rightarrow> error + Vector3" where
  "normalFromVertices vertices reverse =
     (case (if reverse
            then (snd (snd vertices), fst (snd vertices), fst vertices)
            else vertices) of
        (Some v0, Some v1, Some v2) \<Rightarrow>
          Inr (Vector3_normalize
                 (Vector3_cross (Vector3_subtract (fvl_pos v1) (fvl_pos v0))
                    (Vector3_subtract (fvl_pos v2) (fvl_pos v1))))
      | _ \<Rightarrow> Inl TypeError)"

text \<open>The \<open>reduce\<close> over the triangles, from \<open>prev\<close>.\<close>

fun sumNormals :: "Vector3 \<Rightarrow> FilteredVectorLandmark3 list \<Rightarrow> bool \<Rightarrow> error + Vector3" where
  "sumNormals prev [] reverse = Inr prev"
| "sumNormals prev (tri # rest) reverse =
     (case normalFromVertices tri reverse of
        Inl e \<Rightarrow> Inl e
      | Inr n \<Rightarrow> sumNormals (Vector3_add prev n) rest reverse)"

definition faceVertices ::
  "FilteredVectorLandmark option \<Rightarrow> FilteredVectorLandmark option
     \<Rightarrow> FilteredVectorLandmark option \<Rightarrow> FilteredVectorLandmark option
     \<Rightarrow> FilteredVectorLandmark3 list" where
  "faceVertices left_eye_inner right_eye_inner mouth_left mouth_right =
     [(left_eye_inner, mouth_left, right_eye_inner),
      (right_eye_inner, left_eye_inner, mouth_right),
      (mouth_left, mouth_right, right_eye_inner),
      (mouth_left, mouth_right, left_eye_inner)]"

text \<open>
  The part of \<open>calcFaceNormal\<close> under ``Calculate normals'': the exported list is
  emptied, the sum of the four normals is normalised, and the result is pushed. The
  local \<open>normal\<close> starts as \<open>Vector3.One()\<close> and is overwritten by \<open>copyFrom\<close>
  before it is read.
\<close>

definition calcNormals :: "FilteredVectorLandmark3 list \<Rightarrow> Poses \<Rightarrow> Poses outcome" where
  "calcNormals vertices s =
     (case sumNormals Vector3_Zero vertices False of
        Inl e \<Rightarrow> Thrown e (s\<lparr>faceNormals := []\<rparr>)
      | Inr v \<Rightarrow>
          Normal (s\<lparr>faceNormals := [vectorToNormalizedLandmark (Vector3_normalize v)]\<rparr>))"

text \<open>
  \<open>this.faceLandmarks[row[j]]\<close>: \<open>undefined\<close> when \<open>j\<close> is past the end of the row or the
  index is past the end of the face landmarks. The nose and the two outer eye corners
  are read by \<open>calcFaceNormal\<close> as well, but no triangle uses them, so they are not
  part of the result.
\<close>

definition pick :: "FilteredVectorLandmark list \<Rightarrow> nat list \<Rightarrow> nat \<Rightarrow> FilteredVectorLandmark option" where
  "pick fls row j = (case lookup row j of None \<Rightarrow> None | Some k \<Rightarrow> lookup fls k)"

definition calcFaceNormal :: "deps \<Rightarrow> Poses \<Rightarrow> Poses outcome" where
  "calcFaceNormal E s =
     (case cloneableInputResults s of
        None \<Rightarrow> Normal s
      | Some res \<Rightarrow>
          (case res_faceLandmarks res of
             None \<Rightarrow>
               (case res_poseLandmarks res of
                  None \<Rightarrow> Normal s
                | Some pl \<Rightarrow>
                    calcNormals
                      (faceVertices
                         (lookup (poseLandmarks s) LEFT_EYE_INNER)
                         (lookup (poseLandmarks s) RIGHT_EYE_INNER)
                         (lookup (poseLandmarks s) LEFT_RIGHT)
                         (lookup (poseLandmarks s) RIGHT_LEFT)) s)
           | Some fl \<Rightarrow>
               (case exportFaceMesh (faceLandmarks s) (faceMeshConnections E) [] [] of
                  (il, pl, thrown) \<Rightarrow>
                    let s1 = s\<lparr>faceMeshLandmarkIndexList := il, faceMeshLandmarkList := pl\<rparr>
                    in if thrown then Thrown TypeError s1
                       else (case (lookup il 2, lookup il 3, lookup il 6) of
                               (Some left_eye, Some right_eye, Some lips) \<Rightarrow>
                                 calcNormals
                                   (faceVertices
                                      (pick (faceLandmarks s1) left_eye 8)
                                      (pick (faceLandmarks s1) right_eye 8)
                                      (pick (faceLandmarks s1) lips 10)
                                      (pick (faceLandmarks s1) lips 0)) s1
                             | _ \<Rightarrow> Thrown TypeError s1))))"

subsection \<open>postPoseLandmarks and process\<close>

text \<open>
  The \<open>forEach\<close> over \<open>cloneablePoseLandmarks\<close>; it throws at the first index past the
  end of the filtered list.
\<close>

fun copyFiltered ::
  "NormalizedLandmark list \<Rightarrow> FilteredVectorLandmark list \<Rightarrow> NormalizedLandmark list \<times> bool" where
  "copyFiltered [] fs = ([], False)"
| "copyFiltered (v # vs) [] = (v # vs, True)"
| "copyFiltered (v # vs) (f # fs) =
     (case copyFiltered vs fs of
        (vs', thrown) \<Rightarrow>
          (NormalizedLandmark (vx (fvl_pos f)) (vy (fvl_pos f)) (vz (fvl_pos f))
             (fvl_visibility f) # vs', thrown))"

definition postPoseLandmarks :: "Poses \<Rightarrow> Poses outcome" where
  "postPoseLandmarks s =
     (case copyFiltered (cloneablePoseLandmarks s) (poseLandmarks s) of
        (vs, thrown) \<Rightarrow>
          if thrown then Thrown TypeError (s\<lparr>cloneablePoseLandmarks := vs\<rparr>)
          else Normal (s\<lparr>cloneablePoseLandmarks := vs\<rparr>))"

definition process :: "deps \<Rightarrow> CloneableResults option \<Rightarrow> real \<Rightarrow> Poses \<Rightarrow> Poses outcome" where
  "process E results dt s =
     (let s0 = s\<lparr>cloneableInputResults := results\<rparr>
      in case results of
           None \<Rightarrow> Normal s0
         | Some res \<Rightarrow>
             and_then (and_then (preProcessResults E dt s0) (calcFaceNormal E)) postPoseLandmarks)"

text \<open>
  A session: the frames are processed one after the other on the same object. A call
  that throws rejects the caller's promise and the object stays as the call left it.
\<close>

fun processAll :: "deps \<Rightarrow> (CloneableResults option \<times> real) list \<Rightarrow> Poses \<Rightarrow> Poses" where
  "processAll E [] s = s"
| "processAll E (f # fs) s = processAll E fs (state_of (process E (fst f) (snd f) s))"

text \<open>Whether a call returned, and whether a frame calibrates: its \<open>ea\<close> list is
  present and holds both hips with a confidence above the threshold.\<close>

fun returns :: "'s outcome \<Rightarrow> bool" where
  "returns (Normal s) = True"
| "returns (Thrown e s) = False"

definition hipsVisible :: "NormalizedLandmark list \<Rightarrow> bool" where
  "hipsVisible ps =
     (case lookup ps LEFT_HIP of
        None \<Rightarrow> False
      | Some l \<Rightarrow>
          (case lookup ps RIGHT_HIP of
             None \<Rightarrow> False
           | Some r \<Rightarrow>
               visibility_or_0 l > VISIBILITY_THRESHOLD
               \<and> visibility_or_0 r > VISIBILITY_THRESHOLD))"

definition calibrates :: "CloneableResults option \<Rightarrow> bool" where
  "calibrates results =
     (case results of
        None \<Rightarrow> False
      | Some res \<Rightarrow> (case res_ea res of None \<Rightarrow> False | Some ps \<Rightarrow> hipsVisible ps))"

text \<open>
  The orientation written out, for comparison with \<open>calcFaceNormal\<close>: the normal of a
  triangle is the normalised cross product of its two edge vectors, and the sum runs
  over the four triangles of the \<open>vertices\<close> array, in its order, from the zero vector.
\<close>

definition triangle_normal :: "Vector3 \<Rightarrow> Vector3 \<Rightarrow> Vector3 \<Rightarrow> Vector3" where
  "triangle_normal p0 p1 p2 =
     Vector3_normalize (Vector3_cross (Vector3_subtract p1 p0) (Vector3_subtract p2 p1))"

definition normal_sum :: "Vector3 \<Rightarrow> Vector3 \<Rightarrow> Vector3 \<Rightarrow> Vector3 \<Rightarrow> Vector3" where
  "normal_sum left_eye_inner right_eye_inner mouth_left mouth_right =
     Vector3_add
       (Vector3_add
          (Vector3_add
             (Vector3_add Vector3_Zero
                (triangle_normal left_eye_inner mouth_left right_eye_inner))
             (triangle_normal right_eye_inner left_eye_inner mouth_right))
          (triangle_normal mouth_left mouth_right right_eye_inner))
       (triangle_normal mouth_left mouth_right left_eye_inner)"

text \<open>Consecutive calls of \<open>updatePosition\<close> on one landmark.\<close>

fun updatePositions ::
  "deps \<Rightarrow> (real \<times> Vector3 \<times> real option) list \<Rightarrow> FilteredVectorLandmark \<Rightarrow> FilteredVectorLandmark" where
  "updatePositions E [] l = l"
| "updatePositions E (c # cs) l =
     updatePositions E cs (updatePosition E (fst c) (fst (snd c)) (snd (snd c)) l)"


section \<open>An instance of the imported names\<close>

text \<open>
  Modelled from the spec: the two filters of \<open>src/helper/utils\<close> as the design
  describes them, to have one instance of the imported names at which the theorems
  can be applied to concrete frames. The low-pass filter smooths the derivative with a
  fixed cutoff \<open>d_cutoff\<close> and the value with the cutoff
  \<open>min_cutoff + beta * |edx|\<close>, where \<open>alpha = 1 / (1 + tau / te)\<close> and
  \<open>tau = 1 / (2 * pi * cutoff)\<close>, and returns the previous output when the time
  does not increase. The dead-zone filter holds a reference and snaps to the sample
  when the sample is farther from it than the threshold. The worker's constructor call
  gives the low-pass filter its initial state (time 0, the origin, a zero derivative),
  so there is no separate first call; a new dead-zone filter is taken to hold the
  origin.
\<close>

definition smoothing_factor :: "real \<Rightarrow> real \<Rightarrow> real" where
  "smoothing_factor te cutoff = 1 / (1 + (1 / (2 * pi * cutoff)) / te)"

definition exponential_smoothing :: "real \<Rightarrow> Vector3 \<Rightarrow> Vector3 \<Rightarrow> Vector3" where
  "exponential_smoothing a x x_old = Vector3_add (Vector3_scale x a) (Vector3_scale x_old (1 - a))"

definition OneEuroVectorFilter_next ::
  "real \<Rightarrow> OneEuroVectorFilter \<Rightarrow> real \<Rightarrow> Vector3 \<Rightarrow> Vector3 \<times> OneEuroVectorFilter" where
  "OneEuroVectorFilter_next d_cutoff f t x =
     (let te = t - t_prev f
      in if te \<le> 0 then (x_prev f, f)
         else let dx = Vector3_scale (Vector3_subtract x (x_prev f)) (1 / te);
                  edx = exponential_smoothing (smoothing_factor te d_cutoff) dx (dx_prev f);
                  cutoff = min_cutoff f + beta f * Vector3_length edx;
                  x_hat = exponential_smoothing (smoothing_factor te cutoff) x (x_prev f)
              in (x_hat, f\<lparr>t_prev := t, x_prev := x_hat, dx_prev := edx\<rparr>))"

definition EuclideanHighPassFilter_update ::
  "EuclideanHighPassFilter \<Rightarrow> Vector3 \<Rightarrow> EuclideanHighPassFilter" where
  "EuclideanHighPassFilter_update f v =
     (if Vector3_length (Vector3_subtract v (hp_value f)) > threshold f
      then f\<lparr>hp_value := v\<rparr> else f)"

text \<open>
  The instance: these filters, the list lengths 33 and 478 of MediaPipe's pose and
  refined face-mesh models, and the connection tables of the MediaPipe package.
\<close>

definition mediapipe_deps :: deps where
  "mediapipe_deps =
     \<lparr> oe_next = OneEuroVectorFilter_next 1,
       hp_new = (\<lambda>thr. \<lparr> threshold = thr, hp_value = Vector3_Zero \<rparr>),
       hp_update = EuclideanHighPassFilter_update,
       POSE_LANDMARK_LENGTH = 33,
       FACE_LANDMARK_LENGTH = 478,
       FACEMESH_LEFT_EYEBROW =
         [(276, 283), (283, 282), (282, 295), (295, 285),
          (300, 293), (293, 334), (334, 296), (296, 336)],
       FACEMESH_RIGHT_EYEBROW =
         [(46, 53), (53, 52), (52, 65), (65, 55),
          (70, 63), (63, 105), (105, 66), (66, 107)],
       FACEMESH_LEFT_EYE =
         [(263, 249), (249, 390), (390, 373), (373, 374), (374, 380), (380, 381),
          (381, 382), (382, 362), (263, 466), (466, 388), (388, 387), (387, 386),
          (386, 385), (385, 384), (384, 398), (398, 362)],
       FACEMESH_RIGHT_EYE =
         [(33, 7), (7, 163), (163, 144), (144, 145), (145, 153), (153, 154),
          (154, 155), (155, 133), (33, 246), (246, 161), (161, 160), (160, 159),
          (159, 158), (158, 157), (157, 173), (173, 133)],
       FACEMESH_LEFT_IRIS = [(474, 475), (475, 476), (476, 477), (477, 474)],
       FACEMESH_RIGHT_IRIS = [(469, 470), (470, 471), (471, 472), (472, 469)],
       FACEMESH_LIPS =
         [(61, 146), (146, 91), (91, 181), (181, 84), (84, 17), (17, 314), (314, 405),
          (405, 321), (321, 375), (375, 291), (61, 185), (185, 40), (40, 39), (39, 37),
          (37, 0), (0, 267), (267, 269), (269, 270), (270, 409), (409, 291),
          (78, 95), (95, 88), (88, 178), (178, 87), (87, 14), (14, 317), (317, 402),
          (402, 318), (318, 324), (324, 308), (78, 191), (191, 80), (80, 81), (81, 82),
          (82, 13), (13, 312), (312, 311), (311, 310), (310, 415), (415, 308)] \<rparr>"

text \<open>A pose landmark as constructed by \<open>Poses\<close>, and the same with a given position.\<close>

definition pose_landmark :: FilteredVectorLandmark where
  "pose_landmark = new_FilteredVectorLandmark mediapipe_deps (1 / 100) 2 (7 / 1000)"

definition face_landmark :: FilteredVectorLandmark where
  "face_landmark = new_FilteredVectorLandmark mediapipe_deps (2 / 100) 10 (3 / 1000)"

definition pose_landmark_at :: "Vector3 \<Rightarrow> FilteredVectorLandmark" where
  "pose_landmark_at p = pose_landmark\<lparr>fvl_pos := p\<rparr>"

text \<open>
  A frame in which only \<open>poseLandmarks\<close> is present, and the state of a session in which
  the filtered pose landmarks of the two inner eye corners and the two mouth corners
  are at the given positions.
\<close>

definition pose_only_frame :: CloneableResults where
  "pose_only_frame =
     \<lparr> res_ea = None,
       res_poseLandmarks = Some (replicate 33 (NormalizedLandmark 0 0 0 None)),
       res_faceLandmarks = None \<rparr>"

definition face_points_state :: "Vector3 \<Rightarrow> Vector3 \<Rightarrow> Vector3 \<Rightarrow> Vector3 \<Rightarrow> Poses" where
  "face_points_state left_eye_inner right_eye_inner mouth_left mouth_right =
     (new_Poses mediapipe_deps)
       \<lparr> cloneableInputResults := Some pose_only_frame,
         poseLandmarks :=
           (replicate 33 pose_landmark)
             [LEFT_EYE_INNER := pose_landmark_at left_eye_inner,
              RIGHT_EYE_INNER := pose_landmark_at right_eye_inner,
              LEFT_RIGHT := pose_landmark_at mouth_left,
              RIGHT_LEFT := pose_landmark_at mouth_right] \<rparr>"

text \<open>A frontal face, and an arrangement in which the eye corners straddle the mouth line.\<close>

definition frontal_state :: Poses where
  "frontal_state =
     face_points_state (Vector3 1 1 0) (Vector3 (- 1) 1 0) (Vector3 1 (- 1) 0) (Vector3 (- 1) (- 1) 0)"

definition crossed_state :: Poses where
  "crossed_state =
     face_points_state (Vector3 0 1 0) (Vector3 0 (- 1) 0) (Vector3 1 0 0) (Vector3 (- 1) 0 0)"

text \<open>
  Frames: one with every list present and both hips visible, one with no list, and one
  whose \<open>ea\<close> list is one landmark short and carries no confidence. And the state of a
  new session once \<open>process\<close> has stored the first of them.
\<close>

definition full_frame :: CloneableResults where
  "full_frame =
     \<lparr> res_ea = Some (replicate 33 (NormalizedLandmark (1 / 2) (1 / 2) 0 (Some (9 / 10)))),
       res_poseLandmarks = Some (replicate 33 (NormalizedLandmark (1 / 2) (1 / 2) 0 (Some (9 / 10)))),
       res_faceLandmarks = Some (replicate 478 (NormalizedLandmark (1 / 2) (1 / 4) 0 None)) \<rparr>"

definition empty_frame :: CloneableResults where
  "empty_frame = \<lparr> res_ea = None, res_poseLandmarks = None, res_faceLandmarks = None \<rparr>"

definition short_frame :: CloneableResults where
  "short_frame =
     \<lparr> res_ea = Some (replicate 32 (NormalizedLandmark 0 0 0 None)),
       res_poseLandmarks = None,
       res_faceLandmarks = None \<rparr>"

definition started_state :: Poses where
  "started_state = (new_Poses mediapipe_deps)\<lparr>cloneableInputResults := Some full_frame\<rparr>"


section \<open>Facts about the filtered landmark\<close>

lemma advance_t_fields:
  "fvl_pos (advance_t dt l) = fvl_pos l"
  "fvl_visibility (advance_t dt l) = fvl_visibility l"
  "oneEuroVectorFilter (advance_t dt l) = oneEuroVectorFilter l"
  "highPassFilter (advance_t dt l) = highPassFilter l"
  "tIncrementMode (advance_t dt l) = tIncrementMode l"
  by (simp_all add: advance_t_def split: LandmarkTimeIncrementMode.splits)

lemma advance_t_Universal:
  "tIncrementMode l = Universal \<Longrightarrow> fvl_t (advance_t dt l) = fvl_t l + 1"
  by (simp add: advance_t_def)

text \<open>
  The gate: a confidence that is given, is not 0 and is at most the threshold makes
  \<open>updatePosition\<close> do nothing but advance the time counter.
\<close>

lemma updatePosition_rejected:
  assumes "v \<noteq> 0" and "v \<le> VISIBILITY_THRESHOLD"
  shows "updatePosition E dt p (Some v) l = advance_t dt l"
  using assms by (simp add: updatePosition_def accepted_def Let_def)

lemma updatePositions_rejected:
  assumes "\<forall>c \<in> set cs. \<exists>v. snd (snd c) = Some v \<and> v \<noteq> 0 \<and> v \<le> VISIBILITY_THRESHOLD"
  shows "fvl_pos (updatePositions E cs l) = fvl_pos l
       \<and> fvl_visibility (updatePositions E cs l) = fvl_visibility l
       \<and> oneEuroVectorFilter (updatePositions E cs l) = oneEuroVectorFilter l
       \<and> highPassFilter (updatePositions E cs l) = highPassFilter l"
  using assms
proof (induction cs arbitrary: l)
  case Nil
  then show ?case by simp
next
  case (Cons c cs)
  from Cons.prems obtain v where v: "snd (snd c) = Some v" "v \<noteq> 0" "v \<le> VISIBILITY_THRESHOLD"
    by auto
  have step: "updatePosition E (fst c) (fst (snd c)) (snd (snd c)) l = advance_t (fst c) l"
    using v by (simp add: updatePosition_rejected)
  from Cons.prems have "\<forall>c \<in> set cs. \<exists>v. snd (snd c) = Some v \<and> v \<noteq> 0 \<and> v \<le> VISIBILITY_THRESHOLD"
    by simp
  from Cons.IH [OF this, of "advance_t (fst c) l"] show ?case
    by (simp add: step advance_t_fields)
qed

text \<open>
  Arguments that are given and are not 0 are stored, and nothing else of the landmark
  changes; an argument that is not given leaves its parameter as it is.
\<close>

lemma updateFilterParameters_nonzero:
  assumes "a \<noteq> 0" and "b \<noteq> 0"
  shows "updateFilterParameters (Some a) (Some b) d l
           = l\<lparr>oneEuroVectorFilter := (oneEuroVectorFilter l)\<lparr>min_cutoff := a, beta := b\<rparr>\<rparr>"
  using assms by (simp add: updateFilterParameters_def truthy_def Let_def)

lemma updateFilterParameters_absent:
  "updateFilterParameters None None d l = l"
  by (simp add: updateFilterParameters_def truthy_def Let_def)

lemma updateFilterParameters_state:
  "fvl_pos (updateFilterParameters a b d l) = fvl_pos l"
  "fvl_t (updateFilterParameters a b d l) = fvl_t l"
  "fvl_visibility (updateFilterParameters a b d l) = fvl_visibility l"
  "highPassFilter (updateFilterParameters a b d l) = highPassFilter l"
  "t_prev (oneEuroVectorFilter (updateFilterParameters a b d l)) = t_prev (oneEuroVectorFilter l)"
  "x_prev (oneEuroVectorFilter (updateFilterParameters a b d l)) = x_prev (oneEuroVectorFilter l)"
  "dx_prev (oneEuroVectorFilter (updateFilterParameters a b d l)) = dx_prev (oneEuroVectorFilter l)"
  by (simp_all add: updateFilterParameters_def Let_def)


section \<open>The confidence gate\<close>

text \<open>
  C1. The claim: a call of \<open>updatePosition\<close> whose confidence is given and below the
  threshold 0.6 is skipped, the stored position and confidence staying as they were.
  The confidence 0 is given and below the threshold, and the code accepts it: the test
  \<open>!visibility\<close>, written for the face mesh that has no confidence, also holds for the
  number 0. The stored confidence becomes 0 whatever it was, and the stored position
  becomes the output of the two filters on the new sample.
\<close>

theorem updatePosition_zero_confidence_accepted:
  "0 < VISIBILITY_THRESHOLD
   \<and> fvl_visibility (updatePosition E dt p (Some 0) (l\<lparr>fvl_visibility := Some (9 / 10)\<rparr>)) = Some 0
   \<and> fvl_pos (updatePosition E dt p (Some 0) l) =
       hp_value (hp_update E (highPassFilter l)
         (fst (oe_next E (oneEuroVectorFilter l) (fvl_t (advance_t dt l)) p)))"
  by (simp add: updatePosition_def accepted_def Let_def advance_t_fields VISIBILITY_THRESHOLD_def
      split: prod.splits)

text \<open>
  C3. The claim: a call rejected by the gate leaves the time counter unchanged. It does
  not: the counter is advanced before the gate is looked at. A new landmark has
  \<open>t = 0\<close>; after one call with confidence 0.3, which the gate rejects, it has
  \<open>t = 1\<close>.
\<close>

theorem rejected_update_advances_t_counterexample:
  "\<not> accepted (Some (3 / 10))
   \<and> fvl_t pose_landmark = 0
   \<and> fvl_t (updatePosition mediapipe_deps (1 / 60) (Vector3 1 2 3) (Some (3 / 10)) pose_landmark) = 1"
  by (simp add: updatePosition_def accepted_def Let_def advance_t_def VISIBILITY_THRESHOLD_def
      pose_landmark_def new_FilteredVectorLandmark_def)

text \<open>
  C3 as the code has it: every call of \<open>updatePosition\<close>, accepted or rejected,
  advances the time counter, by 1 in the mode \<open>Universal\<close> (the mode of every
  landmark the class constructs) and by \<open>dt\<close> in the mode \<open>RealTime\<close>.
\<close>

theorem updatePosition_advances_t:
  "fvl_t (updatePosition E dt p visibility l) =
     (case tIncrementMode l of Universal \<Rightarrow> fvl_t l + 1 | RealTime \<Rightarrow> fvl_t l + dt)"
  by (simp add: updatePosition_def advance_t_def Let_def
      split: prod.splits LandmarkTimeIncrementMode.splits)

text \<open>
  C10. The claim: \<open>updateFilterParameters\<close> sets \<open>min_cutoff\<close> and \<open>beta\<close> to every
  value it is given. A given 0 is not stored: \<open>if (beta)\<close> is false for the number 0,
  so a filter whose \<open>beta\<close> is 10 (a face landmark) keeps 10 when asked for 0, the
  value the constructor takes as its default. The same holds for \<open>min_cutoff\<close>.
\<close>

theorem updateFilterParameters_zero_not_stored:
  "beta (oneEuroVectorFilter face_landmark) = 10
   \<and> beta (oneEuroVectorFilter (updateFilterParameters (Some (1 / 2)) (Some 0) None face_landmark)) = 10
   \<and> beta (oneEuroVectorFilter (updateFilterParameters a (Some 0) d l)) = beta (oneEuroVectorFilter l)
   \<and> min_cutoff (oneEuroVectorFilter (updateFilterParameters (Some 0) b d l))
       = min_cutoff (oneEuroVectorFilter l)"
  by (simp add: updateFilterParameters_def truthy_def Let_def face_landmark_def
      new_FilteredVectorLandmark_def)


section \<open>Facts about vectors and lists\<close>

lemma lookup_eq: "lookup xs i = (if i < length xs then Some (xs ! i) else None)"
  by (induction xs i rule: lookup.induct) simp_all

lemmas pose_index_defs =
  LEFT_EYE_INNER_def RIGHT_EYE_INNER_def LEFT_RIGHT_def RIGHT_LEFT_def

lemmas vector_defs =
  Vector3_subtract_def Vector3_cross_def Vector3_add_def Vector3_scale_def Vector3_Zero_def

lemma Vector3_length_nonneg: "0 \<le> Vector3_length a"
  by (simp add: Vector3_length_def)

lemma Vector3_length_zero_iff: "Vector3_length a = 0 \<longleftrightarrow> a = Vector3_Zero"
proof (cases a)
  case (Vector3 x y z)
  have "x * x + y * y + z * z = 0 \<longleftrightarrow> x = 0 \<and> y = 0 \<and> z = 0"
    by (smt (verit) mult_eq_0_iff zero_le_square add_nonneg_eq_0_iff add_nonneg_nonneg)
  moreover have "0 \<le> x * x + y * y + z * z" by simp
  ultimately show ?thesis
    using Vector3 by (simp add: Vector3_length_def Vector3_Zero_def)
qed

lemma Vector3_length_scale: "Vector3_length (Vector3_scale a k) = \<bar>k\<bar> * Vector3_length a"
proof -
  have "vx a * k * (vx a * k) + vy a * k * (vy a * k) + vz a * k * (vz a * k)
      = (k * k) * (vx a * vx a + vy a * vy a + vz a * vz a)"
    by (simp add: algebra_simps)
  then show ?thesis
    by (simp add: Vector3_length_def Vector3_scale_def real_sqrt_mult)
qed

lemma Vector3_length_z: "Vector3_length (Vector3 0 0 z) = \<bar>z\<bar>"
  by (simp add: Vector3_length_def)

text \<open>The normalised vector has length 1, except that the zero vector stays zero.\<close>

lemma Vector3_length_normalize:
  "Vector3_length (Vector3_normalize a) = (if a = Vector3_Zero then 0 else 1)"
proof (cases "a = Vector3_Zero")
  case True
  then show ?thesis
    by (simp add: Vector3_normalize_def Let_def Vector3_length_zero_iff)
next
  case False
  then have "0 < Vector3_length a"
    using Vector3_length_nonneg [of a] Vector3_length_zero_iff [of a] by linarith
  then show ?thesis
    using False by (simp add: Vector3_normalize_def Let_def Vector3_length_scale)
qed

lemma Vector3_normalize_Zero: "Vector3_normalize Vector3_Zero = Vector3_Zero"
  by (simp add: Vector3_normalize_def Let_def Vector3_length_zero_iff)

lemma landmark_magnitude_vector:
  "landmark_magnitude (vectorToNormalizedLandmark v) = Vector3_length v"
  by (simp add: landmark_magnitude_def vectorToNormalizedLandmark_def Vector3_length_def)

lemma Vector3_add_Zero: "Vector3_add prev Vector3_Zero = prev"
  by (cases prev) (simp add: Vector3_add_def Vector3_Zero_def)

lemma Vector3_cross_zero_edge:
  "Vector3_cross Vector3_Zero b = Vector3_Zero"
  "Vector3_cross a Vector3_Zero = Vector3_Zero"
  by (simp_all add: Vector3_cross_def Vector3_Zero_def)

lemma Vector3_cross_parallel: "Vector3_cross a (Vector3_scale a k) = Vector3_Zero"
  by (simp add: Vector3_cross_def Vector3_scale_def Vector3_Zero_def)

lemma Vector3_subtract_self: "Vector3_subtract a a = Vector3_Zero"
  by (simp add: Vector3_subtract_def Vector3_Zero_def)


section \<open>The face orientation\<close>

lemma normalFromVertices_at:
  "normalFromVertices
     (Some (pose_landmark_at a), Some (pose_landmark_at b), Some (pose_landmark_at c)) False
   = Inr (Vector3_normalize (Vector3_cross (Vector3_subtract b a) (Vector3_subtract c b)))"
  by (simp add: normalFromVertices_def pose_landmark_at_def)

lemma face_points_state_vertices:
  "faceVertices
     (lookup (poseLandmarks (face_points_state a b c d)) LEFT_EYE_INNER)
     (lookup (poseLandmarks (face_points_state a b c d)) RIGHT_EYE_INNER)
     (lookup (poseLandmarks (face_points_state a b c d)) LEFT_RIGHT)
     (lookup (poseLandmarks (face_points_state a b c d)) RIGHT_LEFT)
   = faceVertices (Some (pose_landmark_at a)) (Some (pose_landmark_at b))
       (Some (pose_landmark_at c)) (Some (pose_landmark_at d))"
  by (simp add: face_points_state_def lookup_eq pose_index_defs)

lemma calcFaceNormal_face_points_state:
  "calcFaceNormal E (face_points_state a b c d) =
     calcNormals
       (faceVertices (Some (pose_landmark_at a)) (Some (pose_landmark_at b))
          (Some (pose_landmark_at c)) (Some (pose_landmark_at d)))
       (face_points_state a b c d)"
  unfolding calcFaceNormal_def face_points_state_vertices
  by (simp add: face_points_state_def pose_only_frame_def)

lemma frontal_calc:
  "calcFaceNormal mediapipe_deps frontal_state
     = Normal (frontal_state\<lparr>faceNormals := [NormalizedLandmark 0 0 (- 1) None]\<rparr>)"
  unfolding frontal_state_def calcFaceNormal_face_points_state
  by (simp add: calcNormals_def faceVertices_def normalFromVertices_at vector_defs
      Vector3_normalize_def Let_def Vector3_length_z vectorToNormalizedLandmark_def)

lemma crossed_normals:
  "normalFromVertices
     (Some (pose_landmark_at (Vector3 0 1 0)), Some (pose_landmark_at (Vector3 1 0 0)),
      Some (pose_landmark_at (Vector3 0 (- 1) 0))) False = Inr (Vector3 0 0 (- 1))"
  "normalFromVertices
     (Some (pose_landmark_at (Vector3 0 (- 1) 0)), Some (pose_landmark_at (Vector3 0 1 0)),
      Some (pose_landmark_at (Vector3 (- 1) 0 0))) False = Inr (Vector3 0 0 1)"
  "normalFromVertices
     (Some (pose_landmark_at (Vector3 1 0 0)), Some (pose_landmark_at (Vector3 (- 1) 0 0)),
      Some (pose_landmark_at (Vector3 0 (- 1) 0))) False = Inr (Vector3 0 0 1)"
  "normalFromVertices
     (Some (pose_landmark_at (Vector3 1 0 0)), Some (pose_landmark_at (Vector3 (- 1) 0 0)),
      Some (pose_landmark_at (Vector3 0 1 0))) False = Inr (Vector3 0 0 (- 1))"
  by (simp_all add: normalFromVertices_at vector_defs Vector3_normalize_def Let_def
      Vector3_length_z)

lemma crossed_calc:
  "calcFaceNormal mediapipe_deps crossed_state
     = Normal (crossed_state\<lparr>faceNormals := [NormalizedLandmark 0 0 0 None]\<rparr>)"
  unfolding crossed_state_def calcFaceNormal_face_points_state
  by (simp add: calcNormals_def faceVertices_def crossed_normals Vector3_add_def
      Vector3_Zero_def Vector3_normalize_def Let_def Vector3_length_z
      vectorToNormalizedLandmark_def)

lemma calcNormals_Normal:
  assumes "calcNormals vertices s = Normal s'"
  shows "\<exists>v. sumNormals Vector3_Zero vertices False = Inr v
           \<and> s' = s\<lparr>faceNormals := [vectorToNormalizedLandmark (Vector3_normalize v)]\<rparr>"
  using assms by (auto simp: calcNormals_def split: sum.splits)

lemma exportFaceMesh_indices:
  "exportFaceMesh fls cs il pl = (il', pl', False) \<Longrightarrow> il' = il @ map indexArray cs"
proof (induction cs arbitrary: il pl)
  case Nil
  then show ?case by simp
next
  case (Cons c cs)
  from Cons.prems obtain arr where arr: "regionPoints fls (indexArray c) = Some arr"
    and rest: "exportFaceMesh fls cs (il @ [indexArray c]) (pl @ [arr]) = (il', pl', False)"
    by (auto simp: Let_def split: option.splits)
  from Cons.IH [OF rest] show ?case by simp
qed

lemma normalFromVertices_Inr:
  "normalFromVertices (a, b, c) False = Inr n \<longleftrightarrow>
     (\<exists>v0 v1 v2. a = Some v0 \<and> b = Some v1 \<and> c = Some v2
        \<and> n = triangle_normal (fvl_pos v0) (fvl_pos v1) (fvl_pos v2))"
  by (auto simp: normalFromVertices_def triangle_normal_def split: option.splits)

lemma sumNormals_faceVertices:
  assumes "sumNormals Vector3_Zero (faceVertices a b c d) False = Inr v"
  shows "\<exists>lei rei ml mr. a = Some lei \<and> b = Some rei \<and> c = Some ml \<and> d = Some mr
           \<and> v = normal_sum (fvl_pos lei) (fvl_pos rei) (fvl_pos ml) (fvl_pos mr)"
proof -
  from assms obtain n1 n2 n3 n4 where
    n: "normalFromVertices (a, c, b) False = Inr n1"
       "normalFromVertices (b, a, d) False = Inr n2"
       "normalFromVertices (c, d, b) False = Inr n3"
       "normalFromVertices (c, d, a) False = Inr n4"
    and v: "v = Vector3_add (Vector3_add (Vector3_add (Vector3_add Vector3_Zero n1) n2) n3) n4"
    by (auto simp: faceVertices_def split: sum.splits)
  from n(1,2) obtain lei rei ml mr where k: "a = Some lei" "b = Some rei" "c = Some ml" "d = Some mr"
    by (auto simp: normalFromVertices_Inr)
  with n have "n1 = triangle_normal (fvl_pos lei) (fvl_pos ml) (fvl_pos rei)"
    "n2 = triangle_normal (fvl_pos rei) (fvl_pos lei) (fvl_pos mr)"
    "n3 = triangle_normal (fvl_pos ml) (fvl_pos mr) (fvl_pos rei)"
    "n4 = triangle_normal (fvl_pos ml) (fvl_pos mr) (fvl_pos lei)"
    by (auto simp: normalFromVertices_Inr)
  with v k show ?thesis by (simp add: normal_sum_def)
qed

lemma calcFaceNormal_pose_path:
  assumes "cloneableInputResults s = Some res" and "res_faceLandmarks res = None"
    and "calcFaceNormal E s = Normal s'" and "res_poseLandmarks res = Some pl"
  shows "calcNormals
       (faceVertices (lookup (poseLandmarks s) LEFT_EYE_INNER)
          (lookup (poseLandmarks s) RIGHT_EYE_INNER)
          (lookup (poseLandmarks s) LEFT_RIGHT)
          (lookup (poseLandmarks s) RIGHT_LEFT)) s = Normal s'"
  using assms by (simp add: calcFaceNormal_def)

lemma calcFaceNormal_face_path:
  assumes "cloneableInputResults s = Some res" and "res_faceLandmarks res = Some fl"
    and "calcFaceNormal E s = Normal s'"
  shows "\<exists>il pl. calcNormals
       (faceVertices
          (pick (faceLandmarks s) (indexArray (FACEMESH_LEFT_EYE E)) 8)
          (pick (faceLandmarks s) (indexArray (FACEMESH_RIGHT_EYE E)) 8)
          (pick (faceLandmarks s) (indexArray (FACEMESH_LIPS E)) 10)
          (pick (faceLandmarks s) (indexArray (FACEMESH_LIPS E)) 0))
       (s\<lparr>faceMeshLandmarkIndexList := il, faceMeshLandmarkList := pl\<rparr>) = Normal s'"
proof -
  obtain il pl thrown where e: "exportFaceMesh (faceLandmarks s) (faceMeshConnections E) [] [] = (il, pl, thrown)"
    by (cases "exportFaceMesh (faceLandmarks s) (faceMeshConnections E) [] []") auto
  with assms have nt: "\<not> thrown"
    by (auto simp: calcFaceNormal_def Let_def)
  with e have il: "il = map indexArray (faceMeshConnections E)"
    using exportFaceMesh_indices [of "faceLandmarks s" "faceMeshConnections E" "[]" "[]" il pl]
    by simp
  then have rows: "lookup il 2 = Some (indexArray (FACEMESH_LEFT_EYE E))"
    "lookup il 3 = Some (indexArray (FACEMESH_RIGHT_EYE E))"
    "lookup il 6 = Some (indexArray (FACEMESH_LIPS E))"
    by (simp_all add: faceMeshConnections_def lookup_eq)
  from assms e nt rows have "calcNormals
       (faceVertices
          (pick (faceLandmarks s) (indexArray (FACEMESH_LEFT_EYE E)) 8)
          (pick (faceLandmarks s) (indexArray (FACEMESH_RIGHT_EYE E)) 8)
          (pick (faceLandmarks s) (indexArray (FACEMESH_LIPS E)) 10)
          (pick (faceLandmarks s) (indexArray (FACEMESH_LIPS E)) 0))
       (s\<lparr>faceMeshLandmarkIndexList := il, faceMeshLandmarkList := pl\<rparr>) = Normal s'"
    by (simp add: calcFaceNormal_def Let_def)
  then show ?thesis by blast
qed

lemma frontal_key_points:
  "lookup (poseLandmarks frontal_state) LEFT_EYE_INNER = Some (pose_landmark_at (Vector3 1 1 0))"
  "lookup (poseLandmarks frontal_state) RIGHT_EYE_INNER = Some (pose_landmark_at (Vector3 (- 1) 1 0))"
  "lookup (poseLandmarks frontal_state) LEFT_RIGHT = Some (pose_landmark_at (Vector3 1 (- 1) 0))"
  "lookup (poseLandmarks frontal_state) RIGHT_LEFT = Some (pose_landmark_at (Vector3 (- 1) (- 1) 0))"
  by (simp_all add: frontal_state_def face_points_state_def lookup_eq pose_index_defs)

lemma frontal_normal_sum:
  "normal_sum (Vector3 1 1 0) (Vector3 (- 1) 1 0) (Vector3 1 (- 1) 0) (Vector3 (- 1) (- 1) 0)
     = Vector3 0 0 (- 4)"
  by (simp add: normal_sum_def triangle_normal_def vector_defs Vector3_normalize_def Let_def
      Vector3_length_z)

text \<open>
  C2. The claim: whenever the orientation is computed and at least one triangle gives
  a valid normal, the exported vector has magnitude 1 within 1e-6. With the inner eye
  corners at (0, 1, 0) and (0, -1, 0) and the mouth corners at (1, 0, 0) and
  (-1, 0, 0), each of the four triangles gives a unit normal, two of them (0, 0, 1)
  and two (0, 0, -1); their sum is the zero vector, which \<open>normalize\<close> returns as it
  is, and the exported vector is (0, 0, 0), of magnitude 0.
\<close>

theorem crossed_face_normal_counterexample:
  "normalFromVertices
     (Some (pose_landmark_at (Vector3 0 1 0)), Some (pose_landmark_at (Vector3 1 0 0)),
      Some (pose_landmark_at (Vector3 0 (- 1) 0))) False = Inr (Vector3 0 0 (- 1))
   \<and> normalFromVertices
     (Some (pose_landmark_at (Vector3 0 (- 1) 0)), Some (pose_landmark_at (Vector3 0 1 0)),
      Some (pose_landmark_at (Vector3 (- 1) 0 0))) False = Inr (Vector3 0 0 1)
   \<and> normalFromVertices
     (Some (pose_landmark_at (Vector3 1 0 0)), Some (pose_landmark_at (Vector3 (- 1) 0 0)),
      Some (pose_landmark_at (Vector3 0 (- 1) 0))) False = Inr (Vector3 0 0 1)
   \<and> normalFromVertices
     (Some (pose_landmark_at (Vector3 1 0 0)), Some (pose_landmark_at (Vector3 (- 1) 0 0)),
      Some (pose_landmark_at (Vector3 0 1 0))) False = Inr (Vector3 0 0 (- 1))
   \<and> Vector3_length (Vector3 0 0 1) = 1
   \<and> Vector3_length (Vector3 0 0 (- 1)) = 1
   \<and> calcFaceNormal mediapipe_deps crossed_state
       = Normal (crossed_state\<lparr>faceNormals := [NormalizedLandmark 0 0 0 None]\<rparr>)
   \<and> landmark_magnitude (NormalizedLandmark 0 0 0 None) = 0
   \<and> \<not> \<bar>landmark_magnitude (NormalizedLandmark 0 0 0 None) - 1\<bar> \<le> 1 / 10 ^ 6"
  by (simp add: crossed_normals crossed_calc Vector3_length_z landmark_magnitude_def)

text \<open>
  C2 as the code has it: when \<open>calcFaceNormal\<close> computes the orientation (a face or
  pose list is present) and returns, the four key points exist: with no face list they
  are the filtered pose landmarks at the two inner eye corners and the two mouth
  corners, with a face list they are the filtered face landmarks at entry 8 of the index
  lists of the left and of the right eye and at entries 10 and 0 of the index list of
  the lips. The exported list holds one vector, the normalisation of the sum of the
  four triangle normals of these points. Its magnitude is exactly 1 when that sum is
  not the zero vector, and it is the zero vector otherwise.
\<close>

theorem calcFaceNormal_unit_normal:
  assumes "cloneableInputResults s = Some res"
    and "res_faceLandmarks res = Some fl \<or> res_poseLandmarks res = Some pl"
    and "calcFaceNormal E s = Normal s'"
  shows "\<exists>lei rei ml mr.
           (if res_faceLandmarks res = None
            then lookup (poseLandmarks s) LEFT_EYE_INNER = Some lei
               \<and> lookup (poseLandmarks s) RIGHT_EYE_INNER = Some rei
               \<and> lookup (poseLandmarks s) LEFT_RIGHT = Some ml
               \<and> lookup (poseLandmarks s) RIGHT_LEFT = Some mr
            else pick (faceLandmarks s) (indexArray (FACEMESH_LEFT_EYE E)) 8 = Some lei
               \<and> pick (faceLandmarks s) (indexArray (FACEMESH_RIGHT_EYE E)) 8 = Some rei
               \<and> pick (faceLandmarks s) (indexArray (FACEMESH_LIPS E)) 10 = Some ml
               \<and> pick (faceLandmarks s) (indexArray (FACEMESH_LIPS E)) 0 = Some mr)
           \<and> faceNormals s' =
               [vectorToNormalizedLandmark
                  (Vector3_normalize
                     (normal_sum (fvl_pos lei) (fvl_pos rei) (fvl_pos ml) (fvl_pos mr)))]
           \<and> landmark_magnitude
               (vectorToNormalizedLandmark
                  (Vector3_normalize
                     (normal_sum (fvl_pos lei) (fvl_pos rei) (fvl_pos ml) (fvl_pos mr))))
               = (if normal_sum (fvl_pos lei) (fvl_pos rei) (fvl_pos ml) (fvl_pos mr) = Vector3_Zero
                  then 0 else 1)"
proof -
  have mag: "\<And>v. landmark_magnitude (vectorToNormalizedLandmark (Vector3_normalize v))
          = (if v = Vector3_Zero then 0 else 1)"
    by (simp add: landmark_magnitude_vector Vector3_length_normalize)
  show ?thesis
  proof (cases "res_faceLandmarks res")
    case None
    with assms(2) have pl: "res_poseLandmarks res = Some pl" by simp
    from calcNormals_Normal [OF calcFaceNormal_pose_path [OF assms(1) None assms(3) pl]]
    obtain v where v: "sumNormals Vector3_Zero
         (faceVertices (lookup (poseLandmarks s) LEFT_EYE_INNER)
            (lookup (poseLandmarks s) RIGHT_EYE_INNER)
            (lookup (poseLandmarks s) LEFT_RIGHT)
            (lookup (poseLandmarks s) RIGHT_LEFT)) False = Inr v"
      and s': "faceNormals s' = [vectorToNormalizedLandmark (Vector3_normalize v)]"
      by auto
    from sumNormals_faceVertices [OF v] obtain lei rei ml mr where
      "lookup (poseLandmarks s) LEFT_EYE_INNER = Some lei"
      "lookup (poseLandmarks s) RIGHT_EYE_INNER = Some rei"
      "lookup (poseLandmarks s) LEFT_RIGHT = Some ml"
      "lookup (poseLandmarks s) RIGHT_LEFT = Some mr"
      "v = normal_sum (fvl_pos lei) (fvl_pos rei) (fvl_pos ml) (fvl_pos mr)"
      by blast
    with None s' mag [of v] show ?thesis
      by (intro exI [of _ lei] exI [of _ rei] exI [of _ ml] exI [of _ mr]) simp
  next
    case (Some fl')
    from calcFaceNormal_face_path [OF assms(1) Some assms(3)] obtain il pl' where
      "calcNormals
         (faceVertices
            (pick (faceLandmarks s) (indexArray (FACEMESH_LEFT_EYE E)) 8)
            (pick (faceLandmarks s) (indexArray (FACEMESH_RIGHT_EYE E)) 8)
            (pick (faceLandmarks s) (indexArray (FACEMESH_LIPS E)) 10)
            (pick (faceLandmarks s) (indexArray (FACEMESH_LIPS E)) 0))
         (s\<lparr>faceMeshLandmarkIndexList := il, faceMeshLandmarkList := pl'\<rparr>) = Normal s'"
      by blast
    from calcNormals_Normal [OF this]
    obtain v where v: "sumNormals Vector3_Zero
         (faceVertices
            (pick (faceLandmarks s) (indexArray (FACEMESH_LEFT_EYE E)) 8)
            (pick (faceLandmarks s) (indexArray (FACEMESH_RIGHT_EYE E)) 8)
            (pick (faceLandmarks s) (indexArray (FACEMESH_LIPS E)) 10)
            (pick (faceLandmarks s) (indexArray (FACEMESH_LIPS E)) 0)) False = Inr v"
      and s': "faceNormals s' = [vectorToNormalizedLandmark (Vector3_normalize v)]"
      by auto
    from sumNormals_faceVertices [OF v] obtain lei rei ml mr where
      "pick (faceLandmarks s) (indexArray (FACEMESH_LEFT_EYE E)) 8 = Some lei"
      "pick (faceLandmarks s) (indexArray (FACEMESH_RIGHT_EYE E)) 8 = Some rei"
      "pick (faceLandmarks s) (indexArray (FACEMESH_LIPS E)) 10 = Some ml"
      "pick (faceLandmarks s) (indexArray (FACEMESH_LIPS E)) 0 = Some mr"
      "v = normal_sum (fvl_pos lei) (fvl_pos rei) (fvl_pos ml) (fvl_pos mr)"
      by blast
    with Some s' mag [of v] show ?thesis
      by (intro exI [of _ lei] exI [of _ rei] exI [of _ ml] exI [of _ mr]) simp
  qed
qed

theorem calcFaceNormal_unit_normal_witness:
  "cloneableInputResults frontal_state = Some pose_only_frame
   \<and> res_faceLandmarks pose_only_frame = None
   \<and> res_poseLandmarks pose_only_frame = Some (replicate 33 (NormalizedLandmark 0 0 0 None))
   \<and> calcFaceNormal mediapipe_deps frontal_state
       = Normal (frontal_state\<lparr>faceNormals := [NormalizedLandmark 0 0 (- 1) None]\<rparr>)
   \<and> lookup (poseLandmarks frontal_state) LEFT_EYE_INNER = Some (pose_landmark_at (Vector3 1 1 0))
   \<and> lookup (poseLandmarks frontal_state) RIGHT_EYE_INNER = Some (pose_landmark_at (Vector3 (- 1) 1 0))
   \<and> lookup (poseLandmarks frontal_state) LEFT_RIGHT = Some (pose_landmark_at (Vector3 1 (- 1) 0))
   \<and> lookup (poseLandmarks frontal_state) RIGHT_LEFT = Some (pose_landmark_at (Vector3 (- 1) (- 1) 0))
   \<and> normal_sum (Vector3 1 1 0) (Vector3 (- 1) 1 0) (Vector3 1 (- 1) 0) (Vector3 (- 1) (- 1) 0)
       = Vector3 0 0 (- 4)
   \<and> [NormalizedLandmark 0 0 (- 1) None] =
       [vectorToNormalizedLandmark
          (Vector3_normalize
             (normal_sum (Vector3 1 1 0) (Vector3 (- 1) 1 0) (Vector3 1 (- 1) 0)
                (Vector3 (- 1) (- 1) 0)))]
   \<and> landmark_magnitude (NormalizedLandmark 0 0 (- 1) None) = 1"
proof -
  have h1: "cloneableInputResults frontal_state = Some pose_only_frame"
    by (simp add: frontal_state_def face_points_state_def)
  have h2: "res_poseLandmarks pose_only_frame = Some (replicate 33 (NormalizedLandmark 0 0 0 None))"
    and h3: "res_faceLandmarks pose_only_frame = None"
    by (simp_all add: pose_only_frame_def)
  from h2 have h2': "res_faceLandmarks pose_only_frame = Some []
      \<or> res_poseLandmarks pose_only_frame = Some (replicate 33 (NormalizedLandmark 0 0 0 None))"
    by simp
  from calcFaceNormal_unit_normal [OF h1 h2' frontal_calc] obtain lei rei ml mr where
    k: "lookup (poseLandmarks frontal_state) LEFT_EYE_INNER = Some lei"
       "lookup (poseLandmarks frontal_state) RIGHT_EYE_INNER = Some rei"
       "lookup (poseLandmarks frontal_state) LEFT_RIGHT = Some ml"
       "lookup (poseLandmarks frontal_state) RIGHT_LEFT = Some mr"
    and n: "faceNormals (frontal_state\<lparr>faceNormals := [NormalizedLandmark 0 0 (- 1) None]\<rparr>) =
               [vectorToNormalizedLandmark
                  (Vector3_normalize
                     (normal_sum (fvl_pos lei) (fvl_pos rei) (fvl_pos ml) (fvl_pos mr)))]"
    and m: "landmark_magnitude
               (vectorToNormalizedLandmark
                  (Vector3_normalize
                     (normal_sum (fvl_pos lei) (fvl_pos rei) (fvl_pos ml) (fvl_pos mr))))
               = (if normal_sum (fvl_pos lei) (fvl_pos rei) (fvl_pos ml) (fvl_pos mr) = Vector3_Zero
                  then 0 else 1)"
    using h3 by auto
  from k have p: "fvl_pos lei = Vector3 1 1 0" "fvl_pos rei = Vector3 (- 1) 1 0"
    "fvl_pos ml = Vector3 1 (- 1) 0" "fvl_pos mr = Vector3 (- 1) (- 1) 0"
    by (auto simp: frontal_key_points pose_landmark_at_def)
  from n have e: "[NormalizedLandmark 0 0 (- 1) None] =
       [vectorToNormalizedLandmark
          (Vector3_normalize
             (normal_sum (Vector3 1 1 0) (Vector3 (- 1) 1 0) (Vector3 1 (- 1) 0)
                (Vector3 (- 1) (- 1) 0)))]"
    by (simp add: p)
  from m have "landmark_magnitude (NormalizedLandmark 0 0 (- 1) None) = 1"
    unfolding p e [symmetric, simplified] by (simp add: frontal_normal_sum Vector3_Zero_def)
  with h1 h2 h3 frontal_calc frontal_key_points frontal_normal_sum e show ?thesis by simp
qed

text \<open>
  C5 speaks of NaN and Inf in the exported normal. These are values of floating-point
  arithmetic; the numbers of this development are reals, where nothing overflows and
  \<open>1 / 0 = 0\<close>, so neither the conclusion of C5 nor the effect of a test for a
  zero length can be stated here. \<open>normalFromVertices\<close> has no test for a short edge
  of its own; it relies on \<open>normalize\<close>. What holds in exact arithmetic is this: a
  triangle with an edge vector that is exactly zero, or with its three points on a
  line, contributes the zero vector, and the sum is what it is without the triangle.
\<close>

lemma degenerate_triangle_contributes_nothing:
  assumes "fvl_pos v1 = fvl_pos v0 \<or> fvl_pos v2 = fvl_pos v1
     \<or> Vector3_subtract (fvl_pos v2) (fvl_pos v1)
         = Vector3_scale (Vector3_subtract (fvl_pos v1) (fvl_pos v0)) k"
  shows "normalFromVertices (Some v0, Some v1, Some v2) False = Inr Vector3_Zero
       \<and> sumNormals prev ((Some v0, Some v1, Some v2) # rest) False = sumNormals prev rest False"
proof -
  have "Vector3_cross (Vector3_subtract (fvl_pos v1) (fvl_pos v0))
          (Vector3_subtract (fvl_pos v2) (fvl_pos v1)) = Vector3_Zero"
    using assms
    by (auto simp: Vector3_subtract_self Vector3_cross_zero_edge Vector3_cross_parallel)
  then have "normalFromVertices (Some v0, Some v1, Some v2) False = Inr Vector3_Zero"
    by (simp add: normalFromVertices_def Vector3_normalize_Zero)
  then show ?thesis
    by (simp add: Vector3_add_Zero)
qed


section \<open>The exported face mesh\<close>

text \<open>
  When the inner loop runs to its end, the exported list has one point for each index
  of the sub-region, built from the filtered landmark at that index.
\<close>

lemma regionPoints_map:
  "regionPoints fls ks = Some arr \<Longrightarrow>
     arr = map (\<lambda>k. exportPoint (fls ! k)) ks \<and> (\<forall>k \<in> set ks. k < length fls)"
proof (induction ks arbitrary: arr)
  case Nil
  then show ?case by simp
next
  case (Cons k ks)
  then show ?case
    by (auto simp: lookup_eq split: if_splits option.splits)
qed

lemma exportPoint_fields:
  "lm_x (exportPoint l) = vx (fvl_pos l)"
  "lm_y (exportPoint l) = vy (fvl_pos l)"
  "lm_visibility (exportPoint l) = fvl_visibility l"
  by (simp_all add: exportPoint_def)

text \<open>
  C8. The claim: every exported point of a facial sub-region carries the x, y and z of
  the filtered landmark's position and its visibility. The exported \<open>z\<close> is the
  position's \<open>x\<close>: the object literal reads \<open>z: this.faceLandmarks[idxArr[j]].pos.x\<close>.
  A landmark at (1, 2, 3) is exported as (1, 2, 1).
\<close>

theorem exported_z_is_pos_x:
  "lm_z (exportPoint l) = vx (fvl_pos l)
   \<and> regionPoints [l\<lparr>fvl_pos := Vector3 1 2 3\<rparr>] [0]
       = Some [NormalizedLandmark 1 2 1 (fvl_visibility l)]
   \<and> exportFaceMesh [l\<lparr>fvl_pos := Vector3 1 2 3\<rparr>] [[(0, 0)]] [] []
       = ([[0]], [[NormalizedLandmark 1 2 1 (fvl_visibility l)]], False)"
  by (simp add: exportPoint_def indexArray_def setAdd_def)



section \<open>Facts about the steps of a frame\<close>

lemma filterLandmarks_length: "length (fst (filterLandmarks E dt rs fs)) = length fs"
  by (induction E dt rs fs rule: filterLandmarks.induct) (simp_all add: case_prod_beta)

lemma filterLandmarks_thrown: "snd (filterLandmarks E dt rs fs) = (length fs < length rs)"
  by (induction E dt rs fs rule: filterLandmarks.induct) (simp_all add: case_prod_beta)

lemma filterLandmarks_nth:
  "i < length fs \<Longrightarrow>
   fst (filterLandmarks E dt rs fs) ! i =
     (if i < length rs
      then updatePosition E dt (normalizedLandmarkToVector (rs ! i)) (lm_visibility (rs ! i)) (fs ! i)
      else fs ! i)"
proof (induction E dt rs fs arbitrary: i rule: filterLandmarks.induct)
  case (1 E dt fs)
  then show ?case by simp
next
  case (2 E dt r rs)
  then show ?case by simp
next
  case (3 E dt r rs f fs)
  show ?case
  proof (cases i)
    case 0
    then show ?thesis by (simp add: case_prod_beta)
  next
    case (Suc j)
    with 3 show ?thesis by (simp add: case_prod_beta)
  qed
qed

lemma and_then_frame:
  assumes "\<And>s'. g (state_of (f s')) = g s'"
  shows "g (state_of (and_then m f)) = g (state_of m)"
  by (cases m) (simp_all add: assms)

lemma returns_and_then: "returns (and_then m f) = (returns m \<and> returns (f (state_of m)))"
  by (cases m) simp_all

lemma state_of_and_then_returns: "returns m \<Longrightarrow> state_of (and_then m f) = state_of (f (state_of m))"
  by (cases m) simp_all

lemma rememberOffset_frame:
  "poseLandmarks (state_of (rememberOffset ps s)) = poseLandmarks s"
  "faceLandmarks (state_of (rememberOffset ps s)) = faceLandmarks s"
  "console (state_of (rememberOffset ps s)) = console s"
  "cloneableInputResults (state_of (rememberOffset ps s)) = cloneableInputResults s"
  "faceNormals (state_of (rememberOffset ps s)) = faceNormals s"
  "inputFaceLandmarks (state_of (rememberOffset ps s)) = inputFaceLandmarks s"
  "inputPoseLandmarks (state_of (rememberOffset ps s)) = inputPoseLandmarks s"
  "faceMeshLandmarkIndexList (state_of (rememberOffset ps s)) = faceMeshLandmarkIndexList s"
  "faceMeshLandmarkList (state_of (rememberOffset ps s)) = faceMeshLandmarkList s"
  "cloneablePoseLandmarks (state_of (rememberOffset ps s)) = cloneablePoseLandmarks s"
  by (simp_all add: rememberOffset_def split: option.splits)

lemma rememberOffset_calibrated: "\<not> firstResult s \<Longrightarrow> rememberOffset ps s = Normal s"
  by (simp add: rememberOffset_def)

lemma rememberOffset_not_visible:
  "\<not> hipsVisible ps \<Longrightarrow> state_of (rememberOffset ps s) = s"
  by (auto simp: rememberOffset_def hipsVisible_def split: option.splits)

lemma rememberOffset_visible:
  assumes "firstResult s" "lookup ps LEFT_HIP = Some l" "lookup ps RIGHT_HIP = Some r"
    "visibility_or_0 l > VISIBILITY_THRESHOLD" "visibility_or_0 r > VISIBILITY_THRESHOLD"
  shows "rememberOffset ps s =
     Normal (s\<lparr>midHipBase := Vector3_scale (Vector3_add (normalizedLandmarkToVector l)
                (normalizedLandmarkToVector r)) (1 / 2), firstResult := False\<rparr>)"
  using assms by (simp add: rememberOffset_def)

lemma preProcessPose_frame:
  "faceLandmarks (state_of (preProcessPose E dt ps s)) = faceLandmarks s"
  "faceNormals (state_of (preProcessPose E dt ps s)) = faceNormals s"
  "inputFaceLandmarks (state_of (preProcessPose E dt ps s)) = inputFaceLandmarks s"
  "faceMeshLandmarkIndexList (state_of (preProcessPose E dt ps s)) = faceMeshLandmarkIndexList s"
  "faceMeshLandmarkList (state_of (preProcessPose E dt ps s)) = faceMeshLandmarkList s"
  "cloneablePoseLandmarks (state_of (preProcessPose E dt ps s)) = cloneablePoseLandmarks s"
  unfolding preProcessPose_def Let_def
  by (cases "rememberOffset ps (if length ps \<noteq> POSE_LANDMARK_LENGTH E
                then s\<lparr>console := console s @ [PoseLengthWarning (POSE_LANDMARK_LENGTH E)]\<rparr>
                else s)";
      use rememberOffset_frame [of ps "(if length ps \<noteq> POSE_LANDMARK_LENGTH E
                then s\<lparr>console := console s @ [PoseLengthWarning (POSE_LANDMARK_LENGTH E)]\<rparr>
                else s)"] in
      \<open>simp add: mutate_ea_def case_prod_beta split: if_splits\<close>)+


lemma preProcessFace_frame:
  "poseLandmarks (state_of (preProcessFace E dt fl s)) = poseLandmarks s"
  "inputPoseLandmarks (state_of (preProcessFace E dt fl s)) = inputPoseLandmarks s"
  "midHipBase (state_of (preProcessFace E dt fl s)) = midHipBase s"
  "firstResult (state_of (preProcessFace E dt fl s)) = firstResult s"
  "console (state_of (preProcessFace E dt fl s)) = console s"
  "faceNormals (state_of (preProcessFace E dt fl s)) = faceNormals s"
  "faceMeshLandmarkIndexList (state_of (preProcessFace E dt fl s)) = faceMeshLandmarkIndexList s"
  "faceMeshLandmarkList (state_of (preProcessFace E dt fl s)) = faceMeshLandmarkList s"
  "cloneablePoseLandmarks (state_of (preProcessFace E dt fl s)) = cloneablePoseLandmarks s"
  by (simp_all add: preProcessFace_def mutate_face_def case_prod_beta)

lemma calcNormals_frame:
  "poseLandmarks (state_of (calcNormals vs s)) = poseLandmarks s"
  "faceLandmarks (state_of (calcNormals vs s)) = faceLandmarks s"
  "inputPoseLandmarks (state_of (calcNormals vs s)) = inputPoseLandmarks s"
  "inputFaceLandmarks (state_of (calcNormals vs s)) = inputFaceLandmarks s"
  "midHipBase (state_of (calcNormals vs s)) = midHipBase s"
  "firstResult (state_of (calcNormals vs s)) = firstResult s"
  "console (state_of (calcNormals vs s)) = console s"
  "faceMeshLandmarkIndexList (state_of (calcNormals vs s)) = faceMeshLandmarkIndexList s"
  "faceMeshLandmarkList (state_of (calcNormals vs s)) = faceMeshLandmarkList s"
  "cloneablePoseLandmarks (state_of (calcNormals vs s)) = cloneablePoseLandmarks s"
  "cloneableInputResults (state_of (calcNormals vs s)) = cloneableInputResults s"
  by (simp_all add: calcNormals_def split: sum.splits)

lemma calcFaceNormal_frame:
  "poseLandmarks (state_of (calcFaceNormal E s)) = poseLandmarks s"
  "faceLandmarks (state_of (calcFaceNormal E s)) = faceLandmarks s"
  "inputPoseLandmarks (state_of (calcFaceNormal E s)) = inputPoseLandmarks s"
  "inputFaceLandmarks (state_of (calcFaceNormal E s)) = inputFaceLandmarks s"
  "midHipBase (state_of (calcFaceNormal E s)) = midHipBase s"
  "firstResult (state_of (calcFaceNormal E s)) = firstResult s"
  "console (state_of (calcFaceNormal E s)) = console s"
  "cloneablePoseLandmarks (state_of (calcFaceNormal E s)) = cloneablePoseLandmarks s"
  "cloneableInputResults (state_of (calcFaceNormal E s)) = cloneableInputResults s"
  by (simp_all add: calcFaceNormal_def calcNormals_frame Let_def
      split: option.splits prod.splits)

lemma calcFaceNormal_no_face:
  assumes "cloneableInputResults s = Some res" "res_faceLandmarks res = None"
  shows "faceMeshLandmarkIndexList (state_of (calcFaceNormal E s)) = faceMeshLandmarkIndexList s"
    and "faceMeshLandmarkList (state_of (calcFaceNormal E s)) = faceMeshLandmarkList s"
  using assms by (simp_all add: calcFaceNormal_def calcNormals_frame split: option.splits)

lemma calcFaceNormal_no_input:
  assumes "cloneableInputResults s = Some res" "res_faceLandmarks res = None"
    "res_poseLandmarks res = None"
  shows "calcFaceNormal E s = Normal s"
  using assms by (simp add: calcFaceNormal_def)

lemma postPoseLandmarks_frame:
  "poseLandmarks (state_of (postPoseLandmarks s)) = poseLandmarks s"
  "faceLandmarks (state_of (postPoseLandmarks s)) = faceLandmarks s"
  "inputPoseLandmarks (state_of (postPoseLandmarks s)) = inputPoseLandmarks s"
  "inputFaceLandmarks (state_of (postPoseLandmarks s)) = inputFaceLandmarks s"
  "midHipBase (state_of (postPoseLandmarks s)) = midHipBase s"
  "firstResult (state_of (postPoseLandmarks s)) = firstResult s"
  "console (state_of (postPoseLandmarks s)) = console s"
  "faceNormals (state_of (postPoseLandmarks s)) = faceNormals s"
  "faceMeshLandmarkIndexList (state_of (postPoseLandmarks s)) = faceMeshLandmarkIndexList s"
  "faceMeshLandmarkList (state_of (postPoseLandmarks s)) = faceMeshLandmarkList s"
  "cloneableInputResults (state_of (postPoseLandmarks s)) = cloneableInputResults s"
  by (simp_all add: postPoseLandmarks_def case_prod_beta)


lemma preProcessPose_input:
  "map_option res_faceLandmarks (cloneableInputResults (state_of (preProcessPose E dt ps s)))
     = map_option res_faceLandmarks (cloneableInputResults s)"
  "map_option res_poseLandmarks (cloneableInputResults (state_of (preProcessPose E dt ps s)))
     = map_option res_poseLandmarks (cloneableInputResults s)"
  unfolding preProcessPose_def Let_def
  by (cases "rememberOffset ps (if length ps \<noteq> POSE_LANDMARK_LENGTH E
                then s\<lparr>console := console s @ [PoseLengthWarning (POSE_LANDMARK_LENGTH E)]\<rparr>
                else s)";
      use rememberOffset_frame [of ps "(if length ps \<noteq> POSE_LANDMARK_LENGTH E
                then s\<lparr>console := console s @ [PoseLengthWarning (POSE_LANDMARK_LENGTH E)]\<rparr>
                else s)"] in
      \<open>simp add: mutate_ea_def case_prod_beta option.map_comp o_def split: if_splits\<close>)+

lemma preProcessResults_frame:
  "faceNormals (state_of (preProcessResults E dt s)) = faceNormals s"
  "faceMeshLandmarkIndexList (state_of (preProcessResults E dt s)) = faceMeshLandmarkIndexList s"
  "faceMeshLandmarkList (state_of (preProcessResults E dt s)) = faceMeshLandmarkList s"
  "cloneablePoseLandmarks (state_of (preProcessResults E dt s)) = cloneablePoseLandmarks s"
  unfolding preProcessResults_def
  by (simp_all add: and_then_frame preProcessFace_frame preProcessPose_frame
      split: option.splits)

lemma preProcessResults_pose_absent:
  assumes "cloneableInputResults s = Some res" and "res_ea res = None"
  shows "poseLandmarks (state_of (preProcessResults E dt s)) = poseLandmarks s"
    and "inputPoseLandmarks (state_of (preProcessResults E dt s)) = inputPoseLandmarks s"
    and "midHipBase (state_of (preProcessResults E dt s)) = midHipBase s"
    and "firstResult (state_of (preProcessResults E dt s)) = firstResult s"
    and "console (state_of (preProcessResults E dt s)) = console s"
  using assms
  by (simp_all add: preProcessResults_def preProcessFace_frame split: option.splits)

lemma preProcessResults_face_absent:
  assumes "cloneableInputResults s = Some res" and "res_faceLandmarks res = None"
  shows "faceLandmarks (state_of (preProcessResults E dt s)) = faceLandmarks s"
    and "inputFaceLandmarks (state_of (preProcessResults E dt s)) = inputFaceLandmarks s"
    and "map_option res_faceLandmarks (cloneableInputResults (state_of (preProcessResults E dt s)))
           = Some None"
    and "map_option res_poseLandmarks (cloneableInputResults (state_of (preProcessResults E dt s)))
           = Some (res_poseLandmarks res)"
  using assms preProcessPose_input [of E dt _ s]
  by (simp_all add: preProcessResults_def preProcessPose_frame and_then_frame
      split: option.splits)

lemma process_Some:
  "process E (Some res) dt s =
     and_then (and_then (preProcessResults E dt (s\<lparr>cloneableInputResults := Some res\<rparr>))
       (calcFaceNormal E)) postPoseLandmarks"
  by (simp add: process_def)

lemma process_None: "process E None dt s = Normal (s\<lparr>cloneableInputResults := None\<rparr>)"
  by (simp add: process_def)

text \<open>What \<open>process\<close> leaves as \<open>preProcessResults\<close> left it.\<close>

lemma process_frame:
  "poseLandmarks (state_of (process E (Some res) dt s))
     = poseLandmarks (state_of (preProcessResults E dt (s\<lparr>cloneableInputResults := Some res\<rparr>)))"
  "faceLandmarks (state_of (process E (Some res) dt s))
     = faceLandmarks (state_of (preProcessResults E dt (s\<lparr>cloneableInputResults := Some res\<rparr>)))"
  "inputPoseLandmarks (state_of (process E (Some res) dt s))
     = inputPoseLandmarks (state_of (preProcessResults E dt (s\<lparr>cloneableInputResults := Some res\<rparr>)))"
  "inputFaceLandmarks (state_of (process E (Some res) dt s))
     = inputFaceLandmarks (state_of (preProcessResults E dt (s\<lparr>cloneableInputResults := Some res\<rparr>)))"
  "midHipBase (state_of (process E (Some res) dt s))
     = midHipBase (state_of (preProcessResults E dt (s\<lparr>cloneableInputResults := Some res\<rparr>)))"
  "firstResult (state_of (process E (Some res) dt s))
     = firstResult (state_of (preProcessResults E dt (s\<lparr>cloneableInputResults := Some res\<rparr>)))"
  "console (state_of (process E (Some res) dt s))
     = console (state_of (preProcessResults E dt (s\<lparr>cloneableInputResults := Some res\<rparr>)))"
  by (simp_all add: process_Some and_then_frame postPoseLandmarks_frame calcFaceNormal_frame)

lemma process_face_absent:
  assumes "res_faceLandmarks res = None"
  shows "faceMeshLandmarkIndexList (state_of (process E (Some res) dt s)) = faceMeshLandmarkIndexList s"
    and "faceMeshLandmarkList (state_of (process E (Some res) dt s)) = faceMeshLandmarkList s"
proof -
  let ?s0 = "s\<lparr>cloneableInputResults := Some res\<rparr>"
  let ?m = "preProcessResults E dt ?s0"
  have c: "cloneableInputResults ?s0 = Some res" by simp
  from preProcessResults_face_absent(3) [OF c assms, of E dt]
  obtain res' where r: "cloneableInputResults (state_of ?m) = Some res'"
    "res_faceLandmarks res' = None"
    by auto
  have il: "faceMeshLandmarkIndexList (state_of (and_then ?m (calcFaceNormal E)))
              = faceMeshLandmarkIndexList s"
    using calcFaceNormal_no_face(1) [OF r, of E] preProcessResults_frame(2) [of E dt ?s0]
    by (cases ?m) simp_all
  have pl: "faceMeshLandmarkList (state_of (and_then ?m (calcFaceNormal E)))
              = faceMeshLandmarkList s"
    using calcFaceNormal_no_face(2) [OF r, of E] preProcessResults_frame(3) [of E dt ?s0]
    by (cases ?m) simp_all
  show "faceMeshLandmarkIndexList (state_of (process E (Some res) dt s)) = faceMeshLandmarkIndexList s"
    by (simp add: process_Some and_then_frame postPoseLandmarks_frame il)
  show "faceMeshLandmarkList (state_of (process E (Some res) dt s)) = faceMeshLandmarkList s"
    by (simp add: process_Some and_then_frame postPoseLandmarks_frame pl)
qed

lemma process_no_orientation_input:
  assumes "res_faceLandmarks res = None" and "res_poseLandmarks res = None"
  shows "faceNormals (state_of (process E (Some res) dt s)) = faceNormals s"
proof -
  let ?s0 = "s\<lparr>cloneableInputResults := Some res\<rparr>"
  let ?m = "preProcessResults E dt ?s0"
  have c: "cloneableInputResults ?s0 = Some res" by simp
  from preProcessResults_face_absent(3,4) [OF c assms(1), of E dt] assms(2)
  obtain res' where r: "cloneableInputResults (state_of ?m) = Some res'"
    "res_faceLandmarks res' = None" "res_poseLandmarks res' = None"
    by auto
  have "faceNormals (state_of (and_then ?m (calcFaceNormal E))) = faceNormals s"
    using calcFaceNormal_no_input [OF r, of E] preProcessResults_frame(1) [of E dt ?s0]
    by (cases ?m) simp_all
  then show ?thesis
    by (simp add: process_Some and_then_frame postPoseLandmarks_frame)
qed


lemma rememberOffset_firstResult:
  "firstResult (state_of (rememberOffset ps s)) = (firstResult s \<and> \<not> hipsVisible ps)"
  by (auto simp: rememberOffset_def hipsVisible_def split: option.splits)

lemma rememberOffset_midHipBase_keep:
  "\<not> (firstResult s \<and> hipsVisible ps) \<Longrightarrow>
     midHipBase (state_of (rememberOffset ps s)) = midHipBase s"
  by (auto simp: rememberOffset_def hipsVisible_def split: option.splits)

lemma rememberOffset_midHipBase_set:
  assumes "firstResult s" "lookup ps LEFT_HIP = Some l" "lookup ps RIGHT_HIP = Some r"
    "visibility_or_0 l > VISIBILITY_THRESHOLD" "visibility_or_0 r > VISIBILITY_THRESHOLD"
  shows "vy (midHipBase (state_of (rememberOffset ps s))) = (lm_y l + lm_y r) / 2"
  using assms
  by (simp add: rememberOffset_def Vector3_scale_def Vector3_add_def normalizedLandmarkToVector_def)

lemma rememberOffset_returns:
  "returns (rememberOffset ps s) =
     (if firstResult s
      then LEFT_HIP < length ps
           \<and> (if visibility_or_0 (ps ! LEFT_HIP) > VISIBILITY_THRESHOLD
               then RIGHT_HIP < length ps else True)
      else True)"
  by (simp add: rememberOffset_def lookup_eq)

lemma preProcessLandmarks_parts:
  "fst (preProcessLandmarks E rs fs dt off) = map (transformLandmark off) rs"
  "fst (snd (preProcessLandmarks E rs fs dt off))
     = fst (filterLandmarks E dt (map (transformLandmark off) rs) fs)"
  "snd (snd (preProcessLandmarks E rs fs dt off)) = (length fs < length rs)"
  by (simp_all add: preProcessLandmarks_def Let_def case_prod_beta filterLandmarks_thrown)

lemma preProcessPose_calibration:
  "firstResult (state_of (preProcessPose E dt ps s)) = firstResult (state_of (rememberOffset ps s))"
  "midHipBase (state_of (preProcessPose E dt ps s)) = midHipBase (state_of (rememberOffset ps s))"
  unfolding preProcessPose_def Let_def
  by (cases "firstResult s"; cases "lookup ps LEFT_HIP"; cases "lookup ps RIGHT_HIP";
      simp add: rememberOffset_def mutate_ea_def case_prod_beta)+

lemma preProcessPose_returns:
  "returns (preProcessPose E dt ps s) =
     (returns (rememberOffset ps s) \<and> length ps \<le> length (poseLandmarks s))"
  unfolding preProcessPose_def Let_def
  by (cases "firstResult s"; cases "lookup ps LEFT_HIP"; cases "lookup ps RIGHT_HIP";
      auto simp: rememberOffset_def case_prod_beta preProcessLandmarks_parts)

lemma preProcessPose_console:
  "console (state_of (preProcessPose E dt ps s)) =
     (if length ps \<noteq> POSE_LANDMARK_LENGTH E
      then console s @ [PoseLengthWarning (POSE_LANDMARK_LENGTH E)] else console s)"
  unfolding preProcessPose_def Let_def
  by (cases "firstResult s"; cases "lookup ps LEFT_HIP"; cases "lookup ps RIGHT_HIP";
      simp add: rememberOffset_def mutate_ea_def case_prod_beta)

lemma preProcessPose_poseLandmarks:
  "poseLandmarks (state_of (preProcessPose E dt ps s)) =
     (if returns (rememberOffset ps s)
      then fst (filterLandmarks E dt
            (map (transformLandmark (Vector3 0 (vy (midHipBase (state_of (rememberOffset ps s)))) 0)) ps)
            (poseLandmarks s))
      else poseLandmarks s)"
  unfolding preProcessPose_def Let_def
  by (cases "firstResult s"; cases "lookup ps LEFT_HIP"; cases "lookup ps RIGHT_HIP";
      simp add: rememberOffset_def mutate_ea_def case_prod_beta preProcessLandmarks_parts)

lemma preProcessPose_inputPoseLandmarks:
  "inputPoseLandmarks (state_of (preProcessPose E dt ps s)) =
     (if returns (preProcessPose E dt ps s)
      then map (transformLandmark (Vector3 0 (vy (midHipBase (state_of (rememberOffset ps s)))) 0)) ps
      else inputPoseLandmarks s)"
  unfolding preProcessPose_def Let_def
  by (cases "firstResult s"; cases "lookup ps LEFT_HIP"; cases "lookup ps RIGHT_HIP";
      simp add: rememberOffset_def mutate_ea_def case_prod_beta preProcessLandmarks_parts
           split: if_splits)

lemma preProcessFace_returns:
  "returns (preProcessFace E dt fl s) = (length fl \<le> length (faceLandmarks s))"
  by (auto simp: preProcessFace_def case_prod_beta preProcessLandmarks_parts)

lemma preProcessFace_faceLandmarks:
  "faceLandmarks (state_of (preProcessFace E dt fl s)) =
     fst (filterLandmarks E dt (map (transformLandmark Vector3_Zero) fl) (faceLandmarks s))"
  by (simp add: preProcessFace_def case_prod_beta preProcessLandmarks_parts mutate_face_def)

lemma preProcessFace_inputFaceLandmarks:
  "inputFaceLandmarks (state_of (preProcessFace E dt fl s)) =
     (if returns (preProcessFace E dt fl s) then map (transformLandmark Vector3_Zero) fl
      else inputFaceLandmarks s)"
  by (simp add: preProcessFace_def case_prod_beta preProcessLandmarks_parts mutate_face_def
      split: if_splits)


lemma preProcessResults_Some:
  "cloneableInputResults s = Some res \<Longrightarrow>
   preProcessResults E dt s =
     and_then (case res_ea res of None \<Rightarrow> Normal s | Some ps \<Rightarrow> preProcessPose E dt ps s)
       (\<lambda>s1. case res_faceLandmarks res of
                None \<Rightarrow> Normal s1
              | Some fl \<Rightarrow> preProcessFace E dt fl s1)"
  by (simp add: preProcessResults_def)

text \<open>The pose part of \<open>preProcessResults\<close>, seen from the state it leaves.\<close>

lemma preProcessResults_pose:
  assumes "cloneableInputResults s = Some res" and "res_ea res = Some ps"
  shows "poseLandmarks (state_of (preProcessResults E dt s))
           = poseLandmarks (state_of (preProcessPose E dt ps s))"
    and "midHipBase (state_of (preProcessResults E dt s))
           = midHipBase (state_of (preProcessPose E dt ps s))"
    and "firstResult (state_of (preProcessResults E dt s))
           = firstResult (state_of (preProcessPose E dt ps s))"
    and "console (state_of (preProcessResults E dt s))
           = console (state_of (preProcessPose E dt ps s))"
    and "inputPoseLandmarks (state_of (preProcessResults E dt s))
           = inputPoseLandmarks (state_of (preProcessPose E dt ps s))"
    and "returns (preProcessResults E dt s) \<Longrightarrow> returns (preProcessPose E dt ps s)"
  using assms
  by (simp_all add: preProcessResults_Some and_then_frame preProcessFace_frame returns_and_then
      split: option.splits)

lemma preProcessResults_face:
  assumes "cloneableInputResults s = Some res" and "res_faceLandmarks res = Some fl"
    and "returns (preProcessResults E dt s)"
  shows "inputFaceLandmarks (state_of (preProcessResults E dt s)) = map (transformLandmark Vector3_Zero) fl"
    and "faceLandmarks (state_of (preProcessResults E dt s))
           = fst (filterLandmarks E dt (map (transformLandmark Vector3_Zero) fl) (faceLandmarks s))"
    and "length fl \<le> length (faceLandmarks s)"
proof -
  let ?m = "case res_ea res of None \<Rightarrow> Normal s | Some ps \<Rightarrow> preProcessPose E dt ps s"
  have fl: "faceLandmarks (state_of ?m) = faceLandmarks s"
    by (simp add: preProcessPose_frame split: option.splits)
  from assms have ret: "returns ?m" "returns (preProcessFace E dt fl (state_of ?m))"
    by (simp_all add: preProcessResults_Some returns_and_then)
  from assms(1,2) ret(1) have st: "state_of (preProcessResults E dt s)
      = state_of (preProcessFace E dt fl (state_of ?m))"
    by (simp add: preProcessResults_Some state_of_and_then_returns)
  show "inputFaceLandmarks (state_of (preProcessResults E dt s)) = map (transformLandmark Vector3_Zero) fl"
    using ret(2) by (simp add: st preProcessFace_inputFaceLandmarks)
  show "faceLandmarks (state_of (preProcessResults E dt s))
           = fst (filterLandmarks E dt (map (transformLandmark Vector3_Zero) fl) (faceLandmarks s))"
    by (simp add: st preProcessFace_faceLandmarks fl)
  show "length fl \<le> length (faceLandmarks s)"
    using ret(2) by (simp add: preProcessFace_returns fl)
qed

lemma preProcessResults_returns:
  assumes "cloneableInputResults s = Some res"
  shows "returns (preProcessResults E dt s) =
     ((case res_ea res of
         None \<Rightarrow> True
       | Some ps \<Rightarrow> returns (rememberOffset ps s) \<and> length ps \<le> length (poseLandmarks s))
      \<and> (case res_faceLandmarks res of
            None \<Rightarrow> True
          | Some fl \<Rightarrow> length fl \<le> length (faceLandmarks s)))"
  using assms
  by (simp add: preProcessResults_Some returns_and_then preProcessPose_returns
      preProcessFace_returns preProcessPose_frame split: option.splits)

lemmas instance_defs =
  started_state_def full_frame_def new_Poses_def mediapipe_deps_def



section \<open>The coordinate transform\<close>

text \<open>
  C6. When \<open>preProcessResults\<close> returns, every landmark (x, y, z) of the input has been
  mapped to (x + offset.x, -y + offset.y, z + offset.z): the list stored as
  \<open>inputPoseLandmarks\<close> is the \<open>ea\<close> list transformed with the offset
  (0, midHipBase.y, 0), the list stored as \<open>inputFaceLandmarks\<close> is the face list
  transformed with the zero offset, and these transformed positions are the ones fed to
  the filtered landmarks of the same index.
\<close>

theorem coordinate_transform:
  assumes "cloneableInputResults s = Some res"
    and "returns (preProcessResults E dt s)"
    and "s' = state_of (preProcessResults E dt s)"
  shows "transformLandmark offset v =
           NormalizedLandmark (lm_x v + vx offset) (- lm_y v + vy offset) (lm_z v + vz offset)
             (lm_visibility v)
       \<and> (\<forall>ps. res_ea res = Some ps \<longrightarrow>
             inputPoseLandmarks s' = map (transformLandmark (Vector3 0 (vy (midHipBase s')) 0)) ps
             \<and> (\<forall>i < length ps.
                   poseLandmarks s' ! i =
                     updatePosition E dt
                       (normalizedLandmarkToVector
                          (transformLandmark (Vector3 0 (vy (midHipBase s')) 0) (ps ! i)))
                       (lm_visibility (ps ! i)) (poseLandmarks s ! i)))
       \<and> (\<forall>fl. res_faceLandmarks res = Some fl \<longrightarrow>
             inputFaceLandmarks s' = map (transformLandmark (Vector3 0 0 0)) fl
             \<and> (\<forall>i < length fl.
                   faceLandmarks s' ! i =
                     updatePosition E dt
                       (normalizedLandmarkToVector (transformLandmark (Vector3 0 0 0) (fl ! i)))
                       (lm_visibility (fl ! i)) (faceLandmarks s ! i)))"
proof -
  have A: "transformLandmark offset v =
           NormalizedLandmark (lm_x v + vx offset) (- lm_y v + vy offset) (lm_z v + vz offset)
             (lm_visibility v)"
    by (simp add: transformLandmark_def)
  have B: "\<forall>ps. res_ea res = Some ps \<longrightarrow>
             inputPoseLandmarks s' = map (transformLandmark (Vector3 0 (vy (midHipBase s')) 0)) ps
             \<and> (\<forall>i < length ps.
                   poseLandmarks s' ! i =
                     updatePosition E dt
                       (normalizedLandmarkToVector
                          (transformLandmark (Vector3 0 (vy (midHipBase s')) 0) (ps ! i)))
                       (lm_visibility (ps ! i)) (poseLandmarks s ! i))"
  proof (intro allI impI)
    fix ps assume ea: "res_ea res = Some ps"
    have ret: "returns (preProcessPose E dt ps s)"
      using preProcessResults_pose(6) [OF assms(1) ea assms(2)] .
    then have r: "returns (rememberOffset ps s)" "length ps \<le> length (poseLandmarks s)"
      by (simp_all add: preProcessPose_returns)
    have mid: "midHipBase (state_of (preProcessResults E dt s))
                 = midHipBase (state_of (rememberOffset ps s))"
      by (simp add: preProcessResults_pose(2) [OF assms(1) ea] preProcessPose_calibration)
    have inp: "inputPoseLandmarks s' = map (transformLandmark (Vector3 0 (vy (midHipBase s')) 0)) ps"
      using ret
      by (simp add: assms(3) preProcessResults_pose(5) [OF assms(1) ea]
          preProcessPose_inputPoseLandmarks mid)
    have fil: "\<forall>i < length ps.
          poseLandmarks s' ! i =
            updatePosition E dt
              (normalizedLandmarkToVector
                 (transformLandmark (Vector3 0 (vy (midHipBase s')) 0) (ps ! i)))
              (lm_visibility (ps ! i)) (poseLandmarks s ! i)"
      using r
      by (simp add: assms(3) preProcessResults_pose(1) [OF assms(1) ea]
          preProcessPose_poseLandmarks filterLandmarks_nth mid transformLandmark_def)
    from inp fil show "inputPoseLandmarks s' = map (transformLandmark (Vector3 0 (vy (midHipBase s')) 0)) ps
             \<and> (\<forall>i < length ps.
                   poseLandmarks s' ! i =
                     updatePosition E dt
                       (normalizedLandmarkToVector
                          (transformLandmark (Vector3 0 (vy (midHipBase s')) 0) (ps ! i)))
                       (lm_visibility (ps ! i)) (poseLandmarks s ! i))"
      by (rule conjI)
  qed
  have C: "\<forall>fl. res_faceLandmarks res = Some fl \<longrightarrow>
             inputFaceLandmarks s' = map (transformLandmark (Vector3 0 0 0)) fl
             \<and> (\<forall>i < length fl.
                   faceLandmarks s' ! i =
                     updatePosition E dt
                       (normalizedLandmarkToVector (transformLandmark (Vector3 0 0 0) (fl ! i)))
                       (lm_visibility (fl ! i)) (faceLandmarks s ! i))"
  proof (intro allI impI)
    fix fl assume f: "res_faceLandmarks res = Some fl"
    note face = preProcessResults_face [OF assms(1) f assms(2)]
    have inp: "inputFaceLandmarks s' = map (transformLandmark (Vector3 0 0 0)) fl"
      by (simp add: assms(3) face(1) Vector3_Zero_def)
    have fil: "\<forall>i < length fl.
          faceLandmarks s' ! i =
            updatePosition E dt
              (normalizedLandmarkToVector (transformLandmark (Vector3 0 0 0) (fl ! i)))
              (lm_visibility (fl ! i)) (faceLandmarks s ! i)"
      using face(3)
      by (simp add: assms(3) face(2) filterLandmarks_nth Vector3_Zero_def transformLandmark_def)
    from inp fil show "inputFaceLandmarks s' = map (transformLandmark (Vector3 0 0 0)) fl
             \<and> (\<forall>i < length fl.
                   faceLandmarks s' ! i =
                     updatePosition E dt
                       (normalizedLandmarkToVector (transformLandmark (Vector3 0 0 0) (fl ! i)))
                       (lm_visibility (fl ! i)) (faceLandmarks s ! i))"
      by (rule conjI)
  qed
  show ?thesis by (rule conjI [OF A conjI [OF B C]])
qed



theorem coordinate_transform_witness:
  "cloneableInputResults started_state = Some full_frame
   \<and> returns (preProcessResults mediapipe_deps (1 / 60) started_state)
   \<and> vy (midHipBase (state_of (preProcessResults mediapipe_deps (1 / 60) started_state))) = 1 / 2
   \<and> inputPoseLandmarks (state_of (preProcessResults mediapipe_deps (1 / 60) started_state))
       = replicate 33 (NormalizedLandmark (1 / 2) 0 0 (Some (9 / 10)))
   \<and> inputFaceLandmarks (state_of (preProcessResults mediapipe_deps (1 / 60) started_state))
       = replicate 478 (NormalizedLandmark (1 / 2) (- 1 / 4) 0 None)"
proof -
  let ?s' = "state_of (preProcessResults mediapipe_deps (1 / 60) started_state)"
  let ?ps = "replicate 33 (NormalizedLandmark (1 / 2) (1 / 2) 0 (Some (9 / 10)))"
  have h1: "cloneableInputResults started_state = Some full_frame"
    by (simp add: started_state_def)
  have ea: "res_ea full_frame = Some ?ps"
    and fl: "res_faceLandmarks full_frame = Some (replicate 478 (NormalizedLandmark (1 / 2) (1 / 4) 0 None))"
    by (simp_all add: full_frame_def)
  have h2: "returns (preProcessResults mediapipe_deps (1 / 60) started_state)"
    by (simp add: preProcessResults_returns [OF h1] rememberOffset_returns ea fl)
       (simp add: instance_defs LEFT_HIP_def RIGHT_HIP_def)
  have hips: "lookup ?ps LEFT_HIP = Some (NormalizedLandmark (1 / 2) (1 / 2) 0 (Some (9 / 10)))"
    "lookup ?ps RIGHT_HIP = Some (NormalizedLandmark (1 / 2) (1 / 2) 0 (Some (9 / 10)))"
    by (simp_all add: lookup_eq LEFT_HIP_def RIGHT_HIP_def)
  have first: "firstResult started_state"
    by (simp add: instance_defs)
  have mid: "vy (midHipBase ?s') = 1 / 2"
    using rememberOffset_midHipBase_set [OF first hips]
    by (simp add: preProcessResults_pose(2) [OF h1 ea] preProcessPose_calibration
        visibility_or_0_def VISIBILITY_THRESHOLD_def)
  from coordinate_transform [OF h1 h2 refl, of "Vector3 0 0 0" "NormalizedLandmark 0 0 0 None"]
  have "inputPoseLandmarks ?s' = map (transformLandmark (Vector3 0 (vy (midHipBase ?s')) 0)) ?ps"
    and "inputFaceLandmarks ?s'
           = map (transformLandmark (Vector3 0 0 0)) (replicate 478 (NormalizedLandmark (1 / 2) (1 / 4) 0 None))"
    using ea fl by simp_all
  then have "inputPoseLandmarks ?s' = replicate 33 (NormalizedLandmark (1 / 2) 0 0 (Some (9 / 10)))"
    and "inputFaceLandmarks ?s' = replicate 478 (NormalizedLandmark (1 / 2) (- 1 / 4) 0 None)"
    by (simp_all add: mid transformLandmark_def)
  with h1 h2 mid show ?thesis by simp
qed



section \<open>Absent input\<close>

text \<open>
  C7. A landmark set that is absent from the input of a \<open>process\<close> call keeps its
  state, whether the call returns or throws. With no \<open>ea\<close> list (the list that
  feeds the pose filters) the filtered pose landmarks, the stored pose input, the
  calibration and the console are as before. With no face list the filtered face
  landmarks, the stored face input and the exported face-mesh lists are as before.
  With neither a face list nor \<open>poseLandmarks\<close> the orientation is not computed and the
  exported normal is as before.
\<close>

theorem absent_set_keeps_state:
  assumes "s' = state_of (process E (Some res) dt s)"
  shows "(res_ea res = None \<longrightarrow>
            poseLandmarks s' = poseLandmarks s \<and> inputPoseLandmarks s' = inputPoseLandmarks s
            \<and> midHipBase s' = midHipBase s \<and> firstResult s' = firstResult s
            \<and> console s' = console s)
       \<and> (res_faceLandmarks res = None \<longrightarrow>
            faceLandmarks s' = faceLandmarks s \<and> inputFaceLandmarks s' = inputFaceLandmarks s
            \<and> faceMeshLandmarkIndexList s' = faceMeshLandmarkIndexList s
            \<and> faceMeshLandmarkList s' = faceMeshLandmarkList s)
       \<and> (res_faceLandmarks res = None \<and> res_poseLandmarks res = None \<longrightarrow>
            faceNormals s' = faceNormals s)"
proof -
  let ?s0 = "s\<lparr>cloneableInputResults := Some res\<rparr>"
  have c: "cloneableInputResults ?s0 = Some res" by simp
  have A: "res_ea res = None \<longrightarrow>
            poseLandmarks s' = poseLandmarks s \<and> inputPoseLandmarks s' = inputPoseLandmarks s
            \<and> midHipBase s' = midHipBase s \<and> firstResult s' = firstResult s
            \<and> console s' = console s"
    using preProcessResults_pose_absent [OF c, of E dt]
    by (simp add: assms process_frame)
  have B: "res_faceLandmarks res = None \<longrightarrow>
            faceLandmarks s' = faceLandmarks s \<and> inputFaceLandmarks s' = inputFaceLandmarks s
            \<and> faceMeshLandmarkIndexList s' = faceMeshLandmarkIndexList s
            \<and> faceMeshLandmarkList s' = faceMeshLandmarkList s"
    using preProcessResults_face_absent(1,2) [OF c, of E dt]
    by (simp add: assms process_frame process_face_absent)
  have C: "res_faceLandmarks res = None \<and> res_poseLandmarks res = None \<longrightarrow>
            faceNormals s' = faceNormals s"
    by (simp add: assms process_no_orientation_input)
  show ?thesis by (rule conjI [OF A conjI [OF B C]])
qed


theorem absent_set_keeps_state_witness:
  "res_ea empty_frame = None \<and> res_faceLandmarks empty_frame = None
   \<and> res_poseLandmarks empty_frame = None
   \<and> poseLandmarks (state_of (process mediapipe_deps (Some empty_frame) (1 / 60) frontal_state))
       = poseLandmarks frontal_state
   \<and> faceLandmarks (state_of (process mediapipe_deps (Some empty_frame) (1 / 60) frontal_state))
       = faceLandmarks frontal_state
   \<and> faceNormals (state_of (process mediapipe_deps (Some empty_frame) (1 / 60) frontal_state))
       = faceNormals frontal_state"
  using absent_set_keeps_state
    [where E = mediapipe_deps and res = empty_frame and dt = "1 / 60" and s = frontal_state,
     OF refl]
  by (simp add: empty_frame_def)



section \<open>Calibration\<close>

lemma rememberOffset_input_update:
  "midHipBase (state_of (rememberOffset ps (s\<lparr>cloneableInputResults := r\<rparr>)))
     = midHipBase (state_of (rememberOffset ps s))"
  "firstResult (state_of (rememberOffset ps (s\<lparr>cloneableInputResults := r\<rparr>)))
     = firstResult (state_of (rememberOffset ps s))"
  "returns (rememberOffset ps (s\<lparr>cloneableInputResults := r\<rparr>)) = returns (rememberOffset ps s)"
  by (simp_all add: rememberOffset_def split: option.splits)

lemma process_calibration:
  "midHipBase (state_of (process E results dt s)) =
     (case results of
        None \<Rightarrow> midHipBase s
      | Some res \<Rightarrow>
          (case res_ea res of
             None \<Rightarrow> midHipBase s
           | Some ps \<Rightarrow> midHipBase (state_of (rememberOffset ps s))))"
  "firstResult (state_of (process E results dt s)) =
     (case results of
        None \<Rightarrow> firstResult s
      | Some res \<Rightarrow>
          (case res_ea res of
             None \<Rightarrow> firstResult s
           | Some ps \<Rightarrow> firstResult (state_of (rememberOffset ps s))))"
proof -
  show "midHipBase (state_of (process E results dt s)) =
     (case results of
        None \<Rightarrow> midHipBase s
      | Some res \<Rightarrow>
          (case res_ea res of
             None \<Rightarrow> midHipBase s
           | Some ps \<Rightarrow> midHipBase (state_of (rememberOffset ps s))))"
  proof (cases results)
    case None
    then show ?thesis by (simp add: process_None)
  next
    case (Some res)
    have c: "cloneableInputResults (s\<lparr>cloneableInputResults := Some res\<rparr>) = Some res" by simp
    show ?thesis
      using preProcessResults_pose_absent(3) [OF c, of E dt] preProcessResults_pose(2) [OF c, of _ E dt]
      by (simp add: Some process_frame preProcessPose_calibration rememberOffset_input_update
          split: option.splits)
  qed
  show "firstResult (state_of (process E results dt s)) =
     (case results of
        None \<Rightarrow> firstResult s
      | Some res \<Rightarrow>
          (case res_ea res of
             None \<Rightarrow> firstResult s
           | Some ps \<Rightarrow> firstResult (state_of (rememberOffset ps s))))"
  proof (cases results)
    case None
    then show ?thesis by (simp add: process_None)
  next
    case (Some res)
    have c: "cloneableInputResults (s\<lparr>cloneableInputResults := Some res\<rparr>) = Some res" by simp
    show ?thesis
      using preProcessResults_pose_absent(4) [OF c, of E dt] preProcessResults_pose(3) [OF c, of _ E dt]
      by (simp add: Some process_frame preProcessPose_calibration rememberOffset_input_update
          split: option.splits)
  qed
qed

lemma process_not_calibrating:
  assumes "\<not> (firstResult s \<and> calibrates results)"
  shows "midHipBase (state_of (process E results dt s)) = midHipBase s"
    and "firstResult (state_of (process E results dt s)) = firstResult s"
  using assms
  by (auto simp: process_calibration calibrates_def rememberOffset_firstResult
      rememberOffset_midHipBase_keep split: option.splits)

lemma processAll_append: "processAll E (xs @ ys) s = processAll E ys (processAll E xs s)"
  by (induction xs arbitrary: s) simp_all

lemma processAll_not_calibrating:
  assumes "\<forall>f \<in> set fs. \<not> calibrates (fst f)"
  shows "midHipBase (processAll E fs s) = midHipBase s \<and> firstResult (processAll E fs s) = firstResult s"
  using assms
proof (induction fs arbitrary: s)
  case Nil
  then show ?case by simp
next
  case (Cons f fs)
  then have "\<not> (firstResult s \<and> calibrates (fst f))" by simp
  from process_not_calibrating [OF this, of E "snd f"] Cons show ?case by simp
qed

lemma processAll_calibrated:
  assumes "\<not> firstResult s"
  shows "midHipBase (processAll E fs s) = midHipBase s \<and> \<not> firstResult (processAll E fs s)"
  using assms
proof (induction fs arbitrary: s)
  case Nil
  then show ?case by simp
next
  case (Cons f fs)
  then have "\<not> (firstResult s \<and> calibrates (fst f))" by simp
  from process_not_calibrating [OF this, of E "snd f"] Cons show ?case by simp
qed

lemma process_calibrating:
  assumes "firstResult s" "res_ea res = Some ps"
    "lookup ps LEFT_HIP = Some l" "lookup ps RIGHT_HIP = Some r"
    "visibility_or_0 l > VISIBILITY_THRESHOLD" "visibility_or_0 r > VISIBILITY_THRESHOLD"
  shows "vy (midHipBase (state_of (process E (Some res) dt s))) = (lm_y l + lm_y r) / 2"
    and "\<not> firstResult (state_of (process E (Some res) dt s))"
  using assms rememberOffset_midHipBase_set [OF assms(1,3-6)]
  by (simp_all add: process_calibration rememberOffset_firstResult hipsVisible_def)

lemma process_poseLandmarks_calibrated:
  assumes "\<not> firstResult s" "res_ea res = Some ps"
  shows "poseLandmarks (state_of (process E (Some res) dt s)) =
     fst (filterLandmarks E dt (map (transformLandmark (Vector3 0 (vy (midHipBase s)) 0)) ps)
            (poseLandmarks s))"
proof -
  have c: "cloneableInputResults (s\<lparr>cloneableInputResults := Some res\<rparr>) = Some res" by simp
  show ?thesis
    using assms(1)
    by (simp add: process_frame preProcessResults_pose(1) [OF c assms(2)]
        preProcessPose_poseLandmarks rememberOffset_calibrated)
qed

lemma hips_full:
  "lookup (replicate 33 (NormalizedLandmark (1 / 2) (1 / 2) 0 (Some (9 / 10)))) LEFT_HIP
     = Some (NormalizedLandmark (1 / 2) (1 / 2) 0 (Some (9 / 10)))"
  "lookup (replicate 33 (NormalizedLandmark (1 / 2) (1 / 2) 0 (Some (9 / 10)))) RIGHT_HIP
     = Some (NormalizedLandmark (1 / 2) (1 / 2) 0 (Some (9 / 10)))"
  by (simp_all add: lookup_eq LEFT_HIP_def RIGHT_HIP_def)

lemma not_calibrating_frames:
  "\<not> calibrates (Some empty_frame)" "\<not> calibrates (Some short_frame)"
  by (simp_all add: calibrates_def empty_frame_def short_frame_def hipsVisible_def lookup_eq
      LEFT_HIP_def RIGHT_HIP_def visibility_or_0_def VISIBILITY_THRESHOLD_def)


text \<open>
  C4. Calibration happens once, on the first frame whose \<open>ea\<close> list holds both hips
  with a confidence above the threshold. In a session that starts uncalibrated, the
  frames before that one leave \<open>firstResult\<close> and \<open>midHipBase\<close> as they were; that
  frame records the midpoint of the two hips, whose vertical coordinate is the mean of
  theirs; every later frame, whatever it holds, leaves the recorded value as it is;
  and the pose transform of a frame after that uses the recorded vertical offset.
\<close>

theorem calibration_once:
  assumes "firstResult s"
    and "\<forall>f \<in> set pre. \<not> calibrates (fst f)"
    and "res_ea res = Some ps"
    and "lookup ps LEFT_HIP = Some l" and "lookup ps RIGHT_HIP = Some r"
    and "visibility_or_0 l > VISIBILITY_THRESHOLD" and "visibility_or_0 r > VISIBILITY_THRESHOLD"
    and "s1 = processAll E (pre @ [(Some res, dt)]) s"
    and "s2 = processAll E post s1"
    and "res_ea next_res = Some next_ps"
  shows "firstResult (processAll E pre s) \<and> midHipBase (processAll E pre s) = midHipBase s
       \<and> \<not> firstResult s1 \<and> vy (midHipBase s1) = (lm_y l + lm_y r) / 2
       \<and> \<not> firstResult s2 \<and> midHipBase s2 = midHipBase s1
       \<and> poseLandmarks (state_of (process E (Some next_res) next_dt s2)) =
           fst (filterLandmarks E next_dt
                  (map (transformLandmark (Vector3 0 ((lm_y l + lm_y r) / 2) 0)) next_ps)
                  (poseLandmarks s2))"
proof -
  let ?s0 = "processAll E pre s"
  have pre: "firstResult ?s0" "midHipBase ?s0 = midHipBase s"
    using processAll_not_calibrating [OF assms(2), of E s] assms(1) by simp_all
  have s1: "s1 = state_of (process E (Some res) dt ?s0)"
    by (simp add: assms(8) processAll_append)
  have cal: "\<not> firstResult s1" "vy (midHipBase s1) = (lm_y l + lm_y r) / 2"
    using process_calibrating [OF pre(1) assms(3-7), of E dt] by (simp_all add: s1)
  have post: "\<not> firstResult s2" "midHipBase s2 = midHipBase s1"
    using processAll_calibrated [OF cal(1), of E post] by (simp_all add: assms(9))
  have "poseLandmarks (state_of (process E (Some next_res) next_dt s2)) =
           fst (filterLandmarks E next_dt
                  (map (transformLandmark (Vector3 0 ((lm_y l + lm_y r) / 2) 0)) next_ps)
                  (poseLandmarks s2))"
    using process_poseLandmarks_calibrated [OF post(1) assms(10), of E next_dt]
    by (simp add: post(2) cal(2))
  with pre cal post show ?thesis by simp
qed



theorem calibration_once_witness:
  "firstResult (new_Poses mediapipe_deps)
   \<and> \<not> calibrates (Some empty_frame) \<and> \<not> calibrates (Some short_frame)
   \<and> visibility_or_0 (NormalizedLandmark (1 / 2) (1 / 2) 0 (Some (9 / 10))) > VISIBILITY_THRESHOLD
   \<and> firstResult
        (processAll mediapipe_deps [(Some empty_frame, 1 / 60), (Some short_frame, 1 / 60)]
           (new_Poses mediapipe_deps))
   \<and> vy (midHipBase
        (processAll mediapipe_deps
           [(Some empty_frame, 1 / 60), (Some short_frame, 1 / 60), (Some full_frame, 1 / 60)]
           (new_Poses mediapipe_deps))) = 1 / 2
   \<and> vy (midHipBase
        (processAll mediapipe_deps
           [(Some empty_frame, 1 / 60), (Some short_frame, 1 / 60), (Some full_frame, 1 / 60),
            (Some empty_frame, 1 / 60), (Some short_frame, 1 / 60)]
           (new_Poses mediapipe_deps))) = 1 / 2
   \<and> \<not> firstResult
        (processAll mediapipe_deps
           [(Some empty_frame, 1 / 60), (Some short_frame, 1 / 60), (Some full_frame, 1 / 60),
            (Some empty_frame, 1 / 60), (Some short_frame, 1 / 60)]
           (new_Poses mediapipe_deps))"
proof -
  have first: "firstResult (new_Poses mediapipe_deps)"
    by (simp add: new_Poses_def)
  have pre: "\<forall>f \<in> set [(Some empty_frame, 1 / 60 :: real), (Some short_frame, 1 / 60)].
               \<not> calibrates (fst f)"
    by (simp add: not_calibrating_frames)
  have ea: "res_ea full_frame = Some (replicate 33 (NormalizedLandmark (1 / 2) (1 / 2) 0 (Some (9 / 10))))"
    by (simp add: full_frame_def)
  have vis: "visibility_or_0 (NormalizedLandmark (1 / 2) (1 / 2) 0 (Some (9 / 10))) > VISIBILITY_THRESHOLD"
    by (simp add: visibility_or_0_def VISIBILITY_THRESHOLD_def)
  have nxt: "res_ea short_frame = Some (replicate 32 (NormalizedLandmark 0 0 0 None))"
    by (simp add: short_frame_def)
  from calibration_once
    [where E = mediapipe_deps and dt = "1 / 60"
       and post = "[(Some empty_frame, 1 / 60), (Some short_frame, 1 / 60)]"
       and next_dt = "1 / 60",
     OF first pre ea hips_full vis vis refl refl nxt]
  show ?thesis
    using first vis not_calibrating_frames by (simp add: processAll_append)
qed



section \<open>Landmark lists of the wrong length\<close>

lemma lm_visibility_transformLandmark:
  "lm_visibility (transformLandmark off v) = lm_visibility v"
  by (simp add: transformLandmark_def)

lemma copyFiltered_thrown: "snd (copyFiltered vs fs) = (length fs < length vs)"
  by (induction vs fs rule: copyFiltered.induct) (simp_all add: case_prod_beta)

lemma postPoseLandmarks_returns:
  "returns (postPoseLandmarks s) = (length (cloneablePoseLandmarks s) \<le> length (poseLandmarks s))"
  using copyFiltered_thrown [of "cloneablePoseLandmarks s" "poseLandmarks s"]
  by (auto simp: postPoseLandmarks_def case_prod_beta)

lemma fvl_t_updatePosition_Universal:
  "tIncrementMode l = Universal \<Longrightarrow> fvl_t (updatePosition E dt p v l) = fvl_t l + 1"
  by (simp add: updatePosition_def Let_def advance_t_def case_prod_beta)

lemma process_returns_no_orientation:
  assumes "res_faceLandmarks res = None" and "res_poseLandmarks res = None"
  shows "returns (process E (Some res) dt s) =
     (returns (preProcessResults E dt (s\<lparr>cloneableInputResults := Some res\<rparr>))
      \<and> length (cloneablePoseLandmarks s)
          \<le> length (poseLandmarks
                (state_of (preProcessResults E dt (s\<lparr>cloneableInputResults := Some res\<rparr>)))))"
proof -
  let ?s0 = "s\<lparr>cloneableInputResults := Some res\<rparr>"
  let ?m = "preProcessResults E dt ?s0"
  have c: "cloneableInputResults ?s0 = Some res" by simp
  from preProcessResults_face_absent(3,4) [OF c assms(1), of E dt] assms(2)
  obtain res' where r: "cloneableInputResults (state_of ?m) = Some res'"
    "res_faceLandmarks res' = None" "res_poseLandmarks res' = None"
    by auto
  have calc: "calcFaceNormal E (state_of ?m) = Normal (state_of ?m)"
    using calcFaceNormal_no_input [OF r] .
  show ?thesis
    using preProcessResults_frame(4) [of E dt ?s0] calc
    by (cases ?m) (simp_all add: process_Some postPoseLandmarks_returns)
qed

lemma short_frame_returns:
  "returns (process mediapipe_deps (Some short_frame) (1 / 60) (new_Poses mediapipe_deps))"
proof -
  let ?s0 = "(new_Poses mediapipe_deps)\<lparr>cloneableInputResults := Some short_frame\<rparr>"
  have c: "cloneableInputResults ?s0 = Some short_frame" by simp
  have ea: "res_ea short_frame = Some (replicate 32 (NormalizedLandmark 0 0 0 None))"
    and fl: "res_faceLandmarks short_frame = None" and pl: "res_poseLandmarks short_frame = None"
    by (simp_all add: short_frame_def)
  have ro: "returns (rememberOffset (replicate 32 (NormalizedLandmark 0 0 0 None)) ?s0)"
    by (simp add: rememberOffset_returns LEFT_HIP_def visibility_or_0_def VISIBILITY_THRESHOLD_def)
  have len: "length (poseLandmarks (new_Poses mediapipe_deps)) = 33"
    "length (cloneablePoseLandmarks (new_Poses mediapipe_deps)) = 33"
    by (simp_all add: new_Poses_def mediapipe_deps_def)
  have ret: "returns (preProcessResults mediapipe_deps (1 / 60) ?s0)"
    by (simp add: preProcessResults_returns [OF c] ea fl ro len)
  have "length (poseLandmarks (state_of (preProcessResults mediapipe_deps (1 / 60) ?s0))) = 33"
    using ro
    by (simp add: preProcessResults_pose(1) [OF c ea] preProcessPose_poseLandmarks
        filterLandmarks_length len)
  with ret len show ?thesis
    by (simp add: process_returns_no_orientation [OF fl pl])
qed


text \<open>
  C9. The claim: a landmark list of the wrong length is either rejected with an
  explicit error or ignored, the filter state untouched. A new session is given a
  frame whose \<open>ea\<close> list has 32 landmarks instead of 33: the call returns, so nothing
  is rejected, and the first filtered pose landmark has been updated (its time counter
  went from 0 to 1), so the list was not ignored.
\<close>

theorem wrong_length_list_counterexample:
  "res_ea short_frame = Some (replicate 32 (NormalizedLandmark 0 0 0 None))
   \<and> length (replicate 32 (NormalizedLandmark 0 0 0 None)) \<noteq> POSE_LANDMARK_LENGTH mediapipe_deps
   \<and> returns (process mediapipe_deps (Some short_frame) (1 / 60) (new_Poses mediapipe_deps))
   \<and> fvl_t (poseLandmarks (new_Poses mediapipe_deps) ! 0) = 0
   \<and> fvl_t (poseLandmarks
        (state_of (process mediapipe_deps (Some short_frame) (1 / 60) (new_Poses mediapipe_deps))) ! 0) = 1"
proof -
  let ?new = "new_Poses mediapipe_deps"
  let ?init = "?new\<lparr>cloneableInputResults := Some short_frame\<rparr>"
  have c: "cloneableInputResults ?init = Some short_frame" by simp
  have ea: "res_ea short_frame = Some (replicate 32 (NormalizedLandmark 0 0 0 None))"
    by (simp add: short_frame_def)
  have ro: "returns (rememberOffset (replicate 32 (NormalizedLandmark 0 0 0 None)) ?init)"
    by (simp add: rememberOffset_returns LEFT_HIP_def visibility_or_0_def VISIBILITY_THRESHOLD_def)
  have l0: "poseLandmarks ?new ! 0 = pose_landmark"
    by (simp add: new_Poses_def mediapipe_deps_def pose_landmark_def)
  have t0: "fvl_t pose_landmark = 0" "tIncrementMode pose_landmark = Universal"
    by (simp_all add: pose_landmark_def new_FilteredVectorLandmark_def)
  have len: "0 < length (poseLandmarks ?new)"
    by (simp add: new_Poses_def mediapipe_deps_def)
  have "poseLandmarks (state_of (process mediapipe_deps (Some short_frame) (1 / 60) ?new)) ! 0
      = updatePosition mediapipe_deps (1 / 60)
          (normalizedLandmarkToVector
             (transformLandmark
                (Vector3 0 (vy (midHipBase (state_of
                   (rememberOffset (replicate 32 (NormalizedLandmark 0 0 0 None)) ?init)))) 0)
                (NormalizedLandmark 0 0 0 None)))
          None pose_landmark"
    using ro len
    by (simp add: process_frame preProcessResults_pose(1) [OF c ea] preProcessPose_poseLandmarks
        filterLandmarks_nth lm_visibility_transformLandmark l0)
  then have "fvl_t (poseLandmarks
        (state_of (process mediapipe_deps (Some short_frame) (1 / 60) ?new)) ! 0) = 1"
    by (simp add: fvl_t_updatePosition_Universal t0)
  with ea short_frame_returns l0 t0 show ?thesis
    by (simp add: mediapipe_deps_def)
qed


text \<open>
  The pose list of a frame, when its length is not \<open>POSE_LANDMARK_LENGTH\<close>: the warning,
  and what the filtered pose landmarks are when the call returns.
\<close>

lemma pose_list_processed:
  assumes "res_ea res = Some ps"
    and "length ps \<noteq> POSE_LANDMARK_LENGTH E"
    and "s' = state_of (process E (Some res) dt s)"
  shows "console s' = console s @ [PoseLengthWarning (POSE_LANDMARK_LENGTH E)]
       \<and> (returns (process E (Some res) dt s) \<longrightarrow>
            length ps \<le> length (poseLandmarks s)
            \<and> length (poseLandmarks s') = length (poseLandmarks s)
            \<and> (\<forall>i < length (poseLandmarks s).
                  poseLandmarks s' ! i =
                    (if i < length ps
                     then updatePosition E dt
                            (normalizedLandmarkToVector
                               (transformLandmark (Vector3 0 (vy (midHipBase s')) 0) (ps ! i)))
                            (lm_visibility (ps ! i)) (poseLandmarks s ! i)
                     else poseLandmarks s ! i)))"
proof -
  let ?s0 = "s\<lparr>cloneableInputResults := Some res\<rparr>"
  have c: "cloneableInputResults ?s0 = Some res" by simp
  have con: "console s' = console s @ [PoseLengthWarning (POSE_LANDMARK_LENGTH E)]"
    using assms(2)
    by (simp add: assms(3) process_frame preProcessResults_pose(4) [OF c assms(1)]
        preProcessPose_console)
  have rest: "returns (process E (Some res) dt s) \<longrightarrow>
            length ps \<le> length (poseLandmarks s)
            \<and> length (poseLandmarks s') = length (poseLandmarks s)
            \<and> (\<forall>i < length (poseLandmarks s).
                  poseLandmarks s' ! i =
                    (if i < length ps
                     then updatePosition E dt
                            (normalizedLandmarkToVector
                               (transformLandmark (Vector3 0 (vy (midHipBase s')) 0) (ps ! i)))
                            (lm_visibility (ps ! i)) (poseLandmarks s ! i)
                     else poseLandmarks s ! i))"
  proof
    assume "returns (process E (Some res) dt s)"
    then have "returns (preProcessResults E dt ?s0)"
      by (simp add: process_Some returns_and_then)
    from preProcessResults_pose(6) [OF c assms(1) this]
    have r: "returns (rememberOffset ps s)" "length ps \<le> length (poseLandmarks s)"
      by (simp_all add: preProcessPose_returns rememberOffset_input_update)
    have mid: "midHipBase s' = midHipBase (state_of (rememberOffset ps s))"
      by (simp add: assms(3) process_calibration assms(1))
    have pl: "poseLandmarks s' =
        fst (filterLandmarks E dt
               (map (transformLandmark (Vector3 0 (vy (midHipBase s')) 0)) ps) (poseLandmarks s))"
      using r(1)
      by (simp add: mid, simp add: assms(3) process_frame preProcessResults_pose(1) [OF c assms(1)]
          preProcessPose_poseLandmarks rememberOffset_input_update)
    show "length ps \<le> length (poseLandmarks s)
            \<and> length (poseLandmarks s') = length (poseLandmarks s)
            \<and> (\<forall>i < length (poseLandmarks s).
                  poseLandmarks s' ! i =
                    (if i < length ps
                     then updatePosition E dt
                            (normalizedLandmarkToVector
                               (transformLandmark (Vector3 0 (vy (midHipBase s')) 0) (ps ! i)))
                            (lm_visibility (ps ! i)) (poseLandmarks s ! i)
                     else poseLandmarks s ! i))"
      using r(2)
      by (subst (1 2) pl)
         (simp add: filterLandmarks_length filterLandmarks_nth lm_visibility_transformLandmark)
  qed
  show ?thesis by (rule conjI [OF con rest])
qed



lemma process_console:
  "console (state_of (process E (Some res) dt s)) =
     (case res_ea res of
        None \<Rightarrow> console s
      | Some ps \<Rightarrow>
          if length ps \<noteq> POSE_LANDMARK_LENGTH E
          then console s @ [PoseLengthWarning (POSE_LANDMARK_LENGTH E)] else console s)"
proof -
  have c: "cloneableInputResults (s\<lparr>cloneableInputResults := Some res\<rparr>) = Some res" by simp
  show ?thesis
    using preProcessResults_pose_absent(5) [OF c, of E dt] preProcessResults_pose(4) [OF c, of _ E dt]
    by (simp add: process_frame preProcessPose_console split: option.splits)
qed

text \<open>
  C9 as the code has it: a pose list whose length is not \<open>POSE_LANDMARK_LENGTH\<close>
  makes the call print exactly one warning, whether the call returns or throws; a pose
  list of that length, or none, prints nothing, whatever the face list is. Whenever
  the call returns, such a pose list was no longer than the filtered pose landmarks,
  every filtered pose landmark at an index below the length of the list has been
  updated with the transformed input of that index, and the others are as before; and
  the same holds of a face list of any length and the filtered face landmarks.
\<close>

theorem wrong_length_list_processed:
  assumes "s' = state_of (process E (Some res) dt s)"
  shows "(\<forall>ps. res_ea res = Some ps \<longrightarrow> length ps \<noteq> POSE_LANDMARK_LENGTH E \<longrightarrow>
            console s' = console s @ [PoseLengthWarning (POSE_LANDMARK_LENGTH E)]
            \<and> (returns (process E (Some res) dt s) \<longrightarrow>
                 length ps \<le> length (poseLandmarks s)
                 \<and> length (poseLandmarks s') = length (poseLandmarks s)
                 \<and> (\<forall>i < length (poseLandmarks s).
                       poseLandmarks s' ! i =
                         (if i < length ps
                          then updatePosition E dt
                                 (normalizedLandmarkToVector
                                    (transformLandmark (Vector3 0 (vy (midHipBase s')) 0) (ps ! i)))
                                 (lm_visibility (ps ! i)) (poseLandmarks s ! i)
                          else poseLandmarks s ! i))))
       \<and> (\<forall>fl. res_faceLandmarks res = Some fl \<longrightarrow> returns (process E (Some res) dt s) \<longrightarrow>
            length fl \<le> length (faceLandmarks s)
            \<and> length (faceLandmarks s') = length (faceLandmarks s)
            \<and> (\<forall>i < length (faceLandmarks s).
                  faceLandmarks s' ! i =
                    (if i < length fl
                     then updatePosition E dt
                            (normalizedLandmarkToVector (transformLandmark (Vector3 0 0 0) (fl ! i)))
                            (lm_visibility (fl ! i)) (faceLandmarks s ! i)
                     else faceLandmarks s ! i)))
       \<and> (res_ea res = None \<longrightarrow> console s' = console s)
       \<and> (\<forall>ps. res_ea res = Some ps \<longrightarrow> length ps = POSE_LANDMARK_LENGTH E \<longrightarrow>
            console s' = console s)"
proof -
  let ?init = "s\<lparr>cloneableInputResults := Some res\<rparr>"
  have c: "cloneableInputResults ?init = Some res" by simp
  have A: "\<forall>ps. res_ea res = Some ps \<longrightarrow> length ps \<noteq> POSE_LANDMARK_LENGTH E \<longrightarrow>
            console s' = console s @ [PoseLengthWarning (POSE_LANDMARK_LENGTH E)]
            \<and> (returns (process E (Some res) dt s) \<longrightarrow>
                 length ps \<le> length (poseLandmarks s)
                 \<and> length (poseLandmarks s') = length (poseLandmarks s)
                 \<and> (\<forall>i < length (poseLandmarks s).
                       poseLandmarks s' ! i =
                         (if i < length ps
                          then updatePosition E dt
                                 (normalizedLandmarkToVector
                                    (transformLandmark (Vector3 0 (vy (midHipBase s')) 0) (ps ! i)))
                                 (lm_visibility (ps ! i)) (poseLandmarks s ! i)
                          else poseLandmarks s ! i)))"
    using pose_list_processed [OF _ _ assms] by blast
  have B: "\<forall>fl. res_faceLandmarks res = Some fl \<longrightarrow> returns (process E (Some res) dt s) \<longrightarrow>
            length fl \<le> length (faceLandmarks s)
            \<and> length (faceLandmarks s') = length (faceLandmarks s)
            \<and> (\<forall>i < length (faceLandmarks s).
                  faceLandmarks s' ! i =
                    (if i < length fl
                     then updatePosition E dt
                            (normalizedLandmarkToVector (transformLandmark (Vector3 0 0 0) (fl ! i)))
                            (lm_visibility (fl ! i)) (faceLandmarks s ! i)
                     else faceLandmarks s ! i))"
  proof (intro allI impI)
    fix fl assume f: "res_faceLandmarks res = Some fl"
      and "returns (process E (Some res) dt s)"
    then have ret: "returns (preProcessResults E dt ?init)"
      by (simp add: process_Some returns_and_then)
    note face = preProcessResults_face [OF c f ret]
    have fl': "faceLandmarks s' =
        fst (filterLandmarks E dt (map (transformLandmark (Vector3 0 0 0)) fl) (faceLandmarks s))"
      using face(2) by (simp add: assms process_frame Vector3_Zero_def)
    from face(3) have len: "length fl \<le> length (faceLandmarks s)" by simp
    show "length fl \<le> length (faceLandmarks s)
            \<and> length (faceLandmarks s') = length (faceLandmarks s)
            \<and> (\<forall>i < length (faceLandmarks s).
                  faceLandmarks s' ! i =
                    (if i < length fl
                     then updatePosition E dt
                            (normalizedLandmarkToVector (transformLandmark (Vector3 0 0 0) (fl ! i)))
                            (lm_visibility (fl ! i)) (faceLandmarks s ! i)
                     else faceLandmarks s ! i))"
      using len
      by (subst (1 2) fl')
         (simp add: filterLandmarks_length filterLandmarks_nth lm_visibility_transformLandmark)
  qed
  have C: "res_ea res = None \<longrightarrow> console s' = console s"
    by (simp add: assms process_console)
  have D: "\<forall>ps. res_ea res = Some ps \<longrightarrow> length ps = POSE_LANDMARK_LENGTH E \<longrightarrow>
            console s' = console s"
    by (simp add: assms process_console)
  show ?thesis by (rule conjI [OF A conjI [OF B conjI [OF C D]]])
qed

theorem wrong_length_list_processed_witness:
  "res_ea short_frame = Some (replicate 32 (NormalizedLandmark 0 0 0 None))
   \<and> length (replicate 32 (NormalizedLandmark 0 0 0 None)) \<noteq> POSE_LANDMARK_LENGTH mediapipe_deps
   \<and> returns (process mediapipe_deps (Some short_frame) (1 / 60) (new_Poses mediapipe_deps))
   \<and> console (state_of (process mediapipe_deps (Some short_frame) (1 / 60) (new_Poses mediapipe_deps)))
       = [PoseLengthWarning 33]
   \<and> length (poseLandmarks
        (state_of (process mediapipe_deps (Some short_frame) (1 / 60) (new_Poses mediapipe_deps)))) = 33
   \<and> poseLandmarks
        (state_of (process mediapipe_deps (Some short_frame) (1 / 60) (new_Poses mediapipe_deps))) ! 32
       = poseLandmarks (new_Poses mediapipe_deps) ! 32"
proof -
  let ?new = "new_Poses mediapipe_deps"
  let ?after = "state_of (process mediapipe_deps (Some short_frame) (1 / 60) ?new)"
  have ea: "res_ea short_frame = Some (replicate 32 (NormalizedLandmark 0 0 0 None))"
    by (simp add: short_frame_def)
  have len: "length (replicate 32 (NormalizedLandmark 0 0 0 None)) \<noteq> POSE_LANDMARK_LENGTH mediapipe_deps"
    by (simp add: mediapipe_deps_def)
  have n: "length (poseLandmarks ?new) = 33" "console ?new = []"
    by (simp_all add: new_Poses_def mediapipe_deps_def)
  note th = wrong_length_list_processed
         [where E = mediapipe_deps and dt = "1 / 60" and s = ?new and res = short_frame,
          OF refl]
  from th ea len short_frame_returns
  have con: "console ?after = console ?new @ [PoseLengthWarning (POSE_LANDMARK_LENGTH mediapipe_deps)]"
    and l: "length (poseLandmarks ?after) = length (poseLandmarks ?new)"
    and nth: "\<forall>i < length (poseLandmarks ?new).
                poseLandmarks ?after ! i =
                  (if i < length (replicate 32 (NormalizedLandmark 0 0 0 None))
                   then updatePosition mediapipe_deps (1 / 60)
                          (normalizedLandmarkToVector
                             (transformLandmark (Vector3 0 (vy (midHipBase ?after)) 0)
                                (replicate 32 (NormalizedLandmark 0 0 0 None) ! i)))
                          (lm_visibility (replicate 32 (NormalizedLandmark 0 0 0 None) ! i))
                          (poseLandmarks ?new ! i)
                   else poseLandmarks ?new ! i)"
    by blast+
  from nth n(1) have "poseLandmarks ?after ! 32 = poseLandmarks ?new ! 32"
    by simp
  moreover have "POSE_LANDMARK_LENGTH mediapipe_deps = 33"
    by (simp add: mediapipe_deps_def)
  with con have "console ?after = [PoseLengthWarning 33]"
    by (simp add: n)
  moreover from l have "length (poseLandmarks ?after) = 33"
    by (simp add: n)
  ultimately show ?thesis
    using ea len short_frame_returns by simp
qed

end
